theory Spec2Isabelle
  imports Complex_Main
begin

section \<open>The shop bot of \<^verbatim>\<open>tg_bot.py\<close>\<close>

text \<open>
  The bot is a dialogue state machine over a chat transport; it reads a product
  catalogue from a content backend over HTTP, keeps a cart there, and records the
  dialogue state of each chat in a key-value store. The Python is embedded function by
  function, under the names of the source. What the source leaves to its libraries is
  made explicit:
  \<^item> a backend call gets a reply or none; the backend itself is a parameter (a record of
    its endpoints, each a function on the backend's state);
  \<^item> a call of the chat transport goes through or raises; which one is a parameter too;
  \<^item> an exception is the value \<open>Inl e\<close> of a result;
  \<^item> \<^verbatim>\<open>urljoin\<close> and \<^verbatim>\<open>int\<close> of the Python library are parameters.
  Quantities and prices are Python floats, read here as real numbers. Log calls are
  left out. The texts the bot sends are in Russian; a message is modelled by a
  constructor that names it, with the values the text is formatted from.
\<close>

subsection \<open>State labels (lines 25-29)\<close>

definition STATE_START :: string where
  "STATE_START = ''START''"

definition STATE_HANDLE_MENU :: string where
  "STATE_HANDLE_MENU = ''HANDLE_MENU''"

definition STATE_HANDLE_DESCRIPTION :: string where
  "STATE_HANDLE_DESCRIPTION = ''HANDLE_DESCRIPTION''"

definition STATE_HANDLE_CART :: string where
  "STATE_HANDLE_CART = ''HANDLE_CART''"

definition STATE_WAITING_EMAIL :: string where
  "STATE_WAITING_EMAIL = ''WAITING_EMAIL''"

subsection \<open>Python values\<close>

text \<open>
  \<open>str_int\<close> is \<^verbatim>\<open>str\<close> on an integer. A \<open>pyval\<close> is what
  \<^verbatim>\<open>cart_item.get("documentId") or cart_item.get("id")\<close> can be: a string, an
  integer or \<^verbatim>\<open>None\<close>; \<open>truthy\<close> is its truth value and \<open>py_str\<close> its
  text in an f-string.
\<close>

fun digits :: "nat \<Rightarrow> string" where
  "digits n =
     (if n < 10 then [''0123456789'' ! n]
      else digits (n div 10) @ [''0123456789'' ! (n mod 10)])"

definition str_int :: "int \<Rightarrow> string" where
  "str_int i = (if i < 0 then CHR ''-'' # digits (nat (- i)) else digits (nat i))"

datatype pyval = PyNone | PyInt int | PyStr string

definition truthy :: "pyval \<Rightarrow> bool" where
  "truthy v = (case v of PyNone \<Rightarrow> False | PyInt n \<Rightarrow> n \<noteq> 0 | PyStr s \<Rightarrow> s \<noteq> [])"

definition py_str :: "pyval \<Rightarrow> string" where
  "py_str v = (case v of PyNone \<Rightarrow> ''None'' | PyInt n \<Rightarrow> str_int n | PyStr s \<Rightarrow> s)"

text \<open>\<^verbatim>\<open>x or 0\<close> on a number that may be missing, and \<^verbatim>\<open>x or []\<close> on a list.\<close>

definition or_zero :: "real option \<Rightarrow> real" where
  "or_zero x = (case x of None \<Rightarrow> 0 | Some q \<Rightarrow> q)"

definition or_empty :: "'a list option \<Rightarrow> 'a list" where
  "or_empty x = (case x of None \<Rightarrow> [] | Some xs \<Rightarrow> xs)"

text \<open>\<^verbatim>\<open>xs[0] if xs else None\<close>.\<close>

definition first_or_none :: "'a list \<Rightarrow> 'a option" where
  "first_or_none xs = (case xs of [] \<Rightarrow> None | x # _ \<Rightarrow> Some x)"

definition startswith :: "string \<Rightarrow> string \<Rightarrow> bool" where
  "startswith s p \<longleftrightarrow> take (length p) s = p"

text \<open>
  \<^verbatim>\<open>str.strip()\<close>: the ASCII white space (tab, line feed, vertical tab, form feed,
  carriage return, the four separators 28-31 and the space) is dropped at both ends. A
  \<open>char\<close> is a byte, so the white space beyond ASCII is not modelled.
\<close>

definition is_space :: "char \<Rightarrow> bool" where
  "is_space c \<longleftrightarrow> of_char c \<in> {9, 10, 11, 12, 13, 28, 29, 30, 31, 32 :: nat}"

definition strip :: "string \<Rightarrow> string" where
  "strip s = rev (dropWhile is_space (rev (dropWhile is_space s)))"

text \<open>\<^verbatim>\<open>s.rsplit("_", 1)[1]\<close> on a string that holds an underscore: what follows the last one.\<close>

definition after_last_underscore :: "string \<Rightarrow> string" where
  "after_last_underscore s = rev (takeWhile (\<lambda>c. c \<noteq> CHR ''_'') (rev s))"

subsection \<open>Exceptions and results\<close>

datatype error =
    RequestException
  | HTTPError nat
  | JSONDecodeError
  | AttributeError
  | TelegramError

type_synonym ('s, 'a) action = "'s \<Rightarrow> (error + 'a) \<times> 's"

definition ret :: "'a \<Rightarrow> ('s, 'a) action" where
  "ret x s = (Inr x, s)"

definition throw :: "error \<Rightarrow> ('s, 'a) action" where
  "throw e s = (Inl e, s)"

definition bnd :: "('s, 'a) action \<Rightarrow> ('a \<Rightarrow> ('s, 'b) action) \<Rightarrow> ('s, 'b) action" where
  "bnd m f s = (case m s of (Inl e, s') \<Rightarrow> (Inl e, s') | (Inr x, s') \<Rightarrow> f x s')"

text \<open>\<^verbatim>\<open>try: m  except Exception: h\<close>.\<close>

definition catch :: "('s, 'a) action \<Rightarrow> (error \<Rightarrow> ('s, 'a) action) \<Rightarrow> ('s, 'a) action" where
  "catch m h s = (case m s of (Inl e, s') \<Rightarrow> h e s' | (Inr x, s') \<Rightarrow> (Inr x, s'))"

subsection \<open>HTTP replies\<close>

text \<open>
  A request raises (\<open>NoReply\<close>: a timeout, a refused connection) or gets a reply with a
  status and a body. The body is the JSON envelope \<^verbatim>\<open>{"data": ...}\<close> (\<open>Data None\<close> when
  the field is missing or null) or something \<^verbatim>\<open>response.json().get\<close> raises on.
  \<^verbatim>\<open>raise_for_status\<close> raises on the statuses 400 to 599.
\<close>

datatype 'a body = NoJson | Data "'a option"

datatype 'a reply = NoReply | Reply nat "'a body"

definition raises_for_status :: "nat \<Rightarrow> bool" where
  "raises_for_status st \<longleftrightarrow> 400 \<le> st \<and> st < 600"

text \<open>\<^verbatim>\<open>response.raise_for_status(); response.json().get("data")\<close>.\<close>

fun json_data :: "'a reply \<Rightarrow> error + 'a option" where
  "json_data NoReply = Inl RequestException"
| "json_data (Reply st bd) =
     (if raises_for_status st then Inl (HTTPError st)
      else case bd of NoJson \<Rightarrow> Inl JSONDecodeError | Data d \<Rightarrow> Inr d)"

subsection \<open>The records of the backend, as the bot reads them\<close>

text \<open>
  A field is \<open>None\<close> when the key is missing or null. A picture that is not a JSON
  object is \<open>None\<close> as well (line 85); its \<^verbatim>\<open>formats\<close> object is flattened into the
  two renditions the code reads.
\<close>

record picture_format =
  fmt_url :: "string option"

record picture =
  pic_url :: "string option"
  pic_medium :: "picture_format option"
  pic_small :: "picture_format option"

record product_data =
  pd_id :: "int option"
  pd_title :: "string option"
  pd_description :: "string option"
  pd_price :: "real option"
  pd_qty_kg :: "real option"
  pd_picture :: "picture option"

text \<open>A title, or the placeholder text formatted from an id (lines 78, 133, 612).\<close>

datatype title = Title string | Untitled "int option"

definition title_or :: "string option \<Rightarrow> int option \<Rightarrow> title" where
  "title_or t i = (case t of None \<Rightarrow> Untitled i | Some s \<Rightarrow> if s = [] then Untitled i else Title s)"

text \<open>The dictionary \<^verbatim>\<open>get_product_by_id\<close> returns (lines 100-107).\<close>

record product =
  p_id :: int
  p_title :: title
  p_description :: string
  p_price :: real
  p_image_url :: string
  p_qty_kg :: "real option"

record cart =
  c_id :: int
  c_tg_id :: string

record product_ref =
  pr_id :: "int option"
  pr_title :: "string option"
  pr_price :: "real option"

record cart_item =
  ci_id :: "int option"
  ci_documentId :: "string option"
  ci_qty_kg :: "real option"
  ci_product :: "product_ref option"

record client =
  cl_id :: "int option"
  cl_email :: string

subsection \<open>The content backend\<close>

text \<open>
  One field for each request the bot makes; \<open>'b\<close> is the backend's state. The item of a
  \<^verbatim>\<open>PUT\<close> or \<^verbatim>\<open>DELETE\<close> is named by the last segment of the URL, a string.
\<close>

record 'b backend =
  get_products :: "'b \<Rightarrow> product_data list reply \<times> 'b"
  get_product :: "int \<Rightarrow> 'b \<Rightarrow> product_data list reply \<times> 'b"
  get_image :: "string \<Rightarrow> 'b \<Rightarrow> unit reply \<times> 'b"
  get_carts :: "string \<Rightarrow> 'b \<Rightarrow> cart list reply \<times> 'b"
  post_cart :: "string \<Rightarrow> 'b \<Rightarrow> cart reply \<times> 'b"
  get_cart_items :: "int \<Rightarrow> int \<Rightarrow> 'b \<Rightarrow> cart_item list reply \<times> 'b"
  get_cart_items_populated :: "int \<Rightarrow> 'b \<Rightarrow> cart_item list reply \<times> 'b"
  post_cart_item :: "int \<Rightarrow> int \<Rightarrow> real \<Rightarrow> 'b \<Rightarrow> cart_item reply \<times> 'b"
  put_cart_item :: "string \<Rightarrow> real \<Rightarrow> 'b \<Rightarrow> cart_item reply \<times> 'b"
  delete_cart_item_req :: "string \<Rightarrow> 'b \<Rightarrow> unit reply \<times> 'b"
  get_clients :: "string \<Rightarrow> 'b \<Rightarrow> client list reply \<times> 'b"
  post_client :: "string \<Rightarrow> string \<Rightarrow> 'b \<Rightarrow> client reply \<times> 'b"
  put_client :: "int \<Rightarrow> string \<Rightarrow> 'b \<Rightarrow> client reply \<times> 'b"

text \<open>A request whose reply is checked and unpacked: the envelope's data, or the exception.\<close>

definition request :: "('b \<Rightarrow> 'a reply \<times> 'b) \<Rightarrow> ('b, 'a option) action" where
  "request call b = (case call b of (r, b') \<Rightarrow> (json_data r, b'))"

subsection \<open>Catalog client (lines 41-142)\<close>

text \<open>\<^verbatim>\<open>fetch_products\<close> (lines 41-55): every failure is caught and gives the empty list.\<close>

definition fetch_products :: "'b backend \<Rightarrow> ('b, product_data list) action" where
  "fetch_products api =
     catch (bnd (request (get_products api)) (\<lambda>d. ret (or_empty d))) (\<lambda>e. ret [])"

text \<open>
  Lines 83-90 of \<^verbatim>\<open>get_product_by_id\<close>: the URL of the picture. The rendition is the
  medium one, or the small one when there is no medium one; its URL replaces the
  picture's own when it has one.
\<close>

definition pick_img_url :: "picture option \<Rightarrow> string option" where
  "pick_img_url pic =
     (case pic of
        None \<Rightarrow> None
      | Some p \<Rightarrow>
          (let medium = (case pic_medium p of Some m \<Rightarrow> Some m | None \<Rightarrow> pic_small p)
           in case medium of
                None \<Rightarrow> pic_url p
              | Some m \<Rightarrow>
                  (case fmt_url m of
                     None \<Rightarrow> pic_url p
                   | Some u \<Rightarrow> if u \<noteq> [] then Some u else pic_url p)))"

text \<open>Lines 91-98: the URL handed on, given the base URL and \<^verbatim>\<open>urljoin\<close>.\<close>

definition resolve_image_url :: "(string \<Rightarrow> string \<Rightarrow> string) \<Rightarrow> string \<Rightarrow> string option \<Rightarrow> string" where
  "resolve_image_url urljoin base_url img_url =
     (case img_url of
        None \<Rightarrow> []
      | Some u \<Rightarrow>
          if u = [] then []
          else if startswith u ''http://'' \<or> startswith u ''https://'' then u
          else urljoin base_url u)"

text \<open>Lines 77-107: the dictionary built from the first record.\<close>

definition product_of :: "(string \<Rightarrow> string \<Rightarrow> string) \<Rightarrow> string \<Rightarrow> int \<Rightarrow> product_data \<Rightarrow> product" where
  "product_of urljoin base_url product_id pd =
     \<lparr> p_id = (case pd_id pd of None \<Rightarrow> product_id | Some i \<Rightarrow> i),
       p_title = title_or (pd_title pd) (Some product_id),
       p_description = (case pd_description pd of None \<Rightarrow> [] | Some d \<Rightarrow> d),
       p_price = or_zero (pd_price pd),
       p_image_url = resolve_image_url urljoin base_url (pick_img_url (pd_picture pd)),
       p_qty_kg = pd_qty_kg pd \<rparr>"

text \<open>\<^verbatim>\<open>get_product_by_id\<close> (lines 58-110): no record, or any failure, gives \<^verbatim>\<open>None\<close>.\<close>

definition get_product_by_id ::
  "(string \<Rightarrow> string \<Rightarrow> string) \<Rightarrow> string \<Rightarrow> 'b backend \<Rightarrow> int \<Rightarrow> ('b, product option) action" where
  "get_product_by_id urljoin base_url api product_id =
     catch
       (bnd (request (get_product api product_id)) (\<lambda>d.
          case or_empty d of
            [] \<Rightarrow> ret None
          | pd # _ \<Rightarrow> ret (Some (product_of urljoin base_url product_id pd))))
       (\<lambda>e. ret None)"

text \<open>
  A keyboard is the list of its rows; every row of the source holds one button, given
  here by its \<^verbatim>\<open>callback_data\<close> (the label is left out).
\<close>

type_synonym keyboard = "string list"

text \<open>The loop of lines 129-134: a product with no id, or the id 0, gets no button.\<close>

primrec product_buttons :: "product_data list \<Rightarrow> keyboard" where
  "product_buttons [] = []"
| "product_buttons (pd # pds) =
     (case pd_id pd of
        None \<Rightarrow> product_buttons pds
      | Some pid \<Rightarrow> if pid = 0 then product_buttons pds else str_int pid # product_buttons pds)"

text \<open>\<^verbatim>\<open>build_products_keyboard\<close> (lines 113-142).\<close>

definition build_products_keyboard :: "'b backend \<Rightarrow> ('b, keyboard) action" where
  "build_products_keyboard api =
     bnd (fetch_products api) (\<lambda>products.
       if products = [] then ret [''no_products'', ''show_cart'']
       else
         let keyboard = product_buttons products;
             keyboard = (if keyboard = [] then [''no_products''] else keyboard)
         in ret (keyboard @ [''show_cart'']))"

subsection \<open>Cart client (lines 145-294)\<close>

text \<open>\<^verbatim>\<open>get_cart_by_tg\<close> (lines 145-155).\<close>

definition get_cart_by_tg :: "'b backend \<Rightarrow> string \<Rightarrow> ('b, cart option) action" where
  "get_cart_by_tg api tg_id =
     bnd (request (get_carts api tg_id)) (\<lambda>d. ret (first_or_none (or_empty d)))"

text \<open>\<^verbatim>\<open>create_cart_for_tg\<close> (lines 158-170).\<close>

definition create_cart_for_tg :: "'b backend \<Rightarrow> string \<Rightarrow> ('b, cart option) action" where
  "create_cart_for_tg api tg_id = request (post_cart api tg_id)"

text \<open>\<^verbatim>\<open>ensure_cart_exists\<close> (lines 173-177).\<close>

definition ensure_cart_exists :: "'b backend \<Rightarrow> string \<Rightarrow> ('b, cart option) action" where
  "ensure_cart_exists api tg_id =
     bnd (get_cart_by_tg api tg_id) (\<lambda>cart.
       case cart of
         Some c \<Rightarrow> ret (Some c)
       | None \<Rightarrow> create_cart_for_tg api tg_id)"

text \<open>\<^verbatim>\<open>find_cart_item\<close> (lines 180-193).\<close>

definition find_cart_item :: "'b backend \<Rightarrow> int \<Rightarrow> int \<Rightarrow> ('b, cart_item option) action" where
  "find_cart_item api cart_id product_id =
     bnd (request (get_cart_items api cart_id product_id)) (\<lambda>d.
       ret (first_or_none (or_empty d)))"

text \<open>\<^verbatim>\<open>get_cart_item_identifier\<close> (lines 196-197).\<close>

definition get_cart_item_identifier :: "cart_item \<Rightarrow> pyval" where
  "get_cart_item_identifier cart_item =
     (let id_value = (case ci_id cart_item of None \<Rightarrow> PyNone | Some n \<Rightarrow> PyInt n)
      in case ci_documentId cart_item of
           None \<Rightarrow> id_value
         | Some d \<Rightarrow> if d \<noteq> [] then PyStr d else id_value)"

text \<open>\<^verbatim>\<open>create_cart_item\<close> (lines 200-218).\<close>

definition create_cart_item :: "'b backend \<Rightarrow> int \<Rightarrow> int \<Rightarrow> real \<Rightarrow> ('b, cart_item option) action" where
  "create_cart_item api cart_id product_id qty_kg =
     request (post_cart_item api cart_id product_id qty_kg)"

text \<open>
  \<^verbatim>\<open>update_cart_item_qty\<close> (lines 221-243): a 404 gives \<^verbatim>\<open>None\<close> and raises nothing.
  \<^verbatim>\<open>suppress_not_found\<close> only silences a log line.
\<close>

definition update_cart_item_qty ::
  "'b backend \<Rightarrow> pyval \<Rightarrow> real \<Rightarrow> bool \<Rightarrow> ('b, cart_item option) action" where
  "update_cart_item_qty api item_id qty_kg suppress_not_found b =
     (case put_cart_item api (py_str item_id) qty_kg b of
        (NoReply, b') \<Rightarrow> (Inl RequestException, b')
      | (Reply st bd, b') \<Rightarrow>
          if st = 404 then (Inr None, b') else (json_data (Reply st bd), b'))"

text \<open>\<^verbatim>\<open>add_or_increment_item\<close> (lines 246-260).\<close>

definition add_or_increment_item ::
  "'b backend \<Rightarrow> int \<Rightarrow> int \<Rightarrow> real \<Rightarrow> ('b, cart_item option) action" where
  "add_or_increment_item api cart_id product_id qty_to_add =
     bnd (find_cart_item api cart_id product_id) (\<lambda>existing.
       case existing of
         None \<Rightarrow> create_cart_item api cart_id product_id qty_to_add
       | Some ex \<Rightarrow>
           (let item_id = get_cart_item_identifier ex;
                current_qty = or_zero (ci_qty_kg ex);
                new_qty = current_qty + qty_to_add
            in bnd (update_cart_item_qty api item_id new_qty False) (\<lambda>updated.
                 case updated of
                   None \<Rightarrow> create_cart_item api cart_id product_id new_qty
                 | Some u \<Rightarrow> ret (Some u))))"

text \<open>\<^verbatim>\<open>delete_cart_item\<close> (lines 263-274).\<close>

definition delete_cart_item :: "'b backend \<Rightarrow> pyval \<Rightarrow> ('b, bool) action" where
  "delete_cart_item api item_id b =
     (case delete_cart_item_req api (py_str item_id) b of
        (NoReply, b') \<Rightarrow> (Inl RequestException, b')
      | (Reply st bd, b') \<Rightarrow>
          if st = 404 then (Inr False, b')
          else if raises_for_status st then (Inl (HTTPError st), b')
          else (Inr True, b'))"

text \<open>\<^verbatim>\<open>hide_cart_item\<close> (lines 277-279).\<close>

definition hide_cart_item :: "'b backend \<Rightarrow> pyval \<Rightarrow> ('b, bool) action" where
  "hide_cart_item api item_id =
     bnd (update_cart_item_qty api item_id 0 True) (\<lambda>updated. ret (updated \<noteq> None))"

text \<open>\<^verbatim>\<open>get_cart_items_with_products\<close> (lines 282-294).\<close>

definition get_cart_items_with_products :: "'b backend \<Rightarrow> int \<Rightarrow> ('b, cart_item list) action" where
  "get_cart_items_with_products api cart_id =
     bnd (request (get_cart_items_populated api cart_id)) (\<lambda>d. ret (or_empty d))"

subsection \<open>Contact client (lines 297-357)\<close>

definition find_client_by_tg :: "'b backend \<Rightarrow> string \<Rightarrow> ('b, client option) action" where
  "find_client_by_tg api tg_id =
     bnd (request (get_clients api tg_id)) (\<lambda>d. ret (first_or_none (or_empty d)))"

definition create_client :: "'b backend \<Rightarrow> string \<Rightarrow> string \<Rightarrow> ('b, client option) action" where
  "create_client api tg_id email = request (post_client api tg_id email)"

definition update_client :: "'b backend \<Rightarrow> int \<Rightarrow> string \<Rightarrow> ('b, client option) action" where
  "update_client api client_id email = request (put_client api client_id email)"

text \<open>\<^verbatim>\<open>create_or_update_client\<close> (lines 351-357).\<close>

definition create_or_update_client :: "'b backend \<Rightarrow> string \<Rightarrow> string \<Rightarrow> ('b, client option) action" where
  "create_or_update_client api tg_id email =
     bnd (find_client_by_tg api tg_id) (\<lambda>existing.
       case existing of
         None \<Rightarrow> create_client api tg_id email
       | Some ex \<Rightarrow>
           (case cl_id ex of
              None \<Rightarrow> create_client api tg_id email
            | Some cid \<Rightarrow>
                if cid \<noteq> 0 then update_client api cid email
                else create_client api tg_id email))"

subsection \<open>The chat transport and the bot's state\<close>

type_synonym chat_id = int

text \<open>
  An update is a text message (chat, text) or a button press (chat, the id of the message
  that carries the button, the button's payload). The dispatcher is registered for text
  messages, the start command and button presses (lines 795-802), so an update is one
  of the two.
\<close>

datatype update = Message chat_id string | CallbackQuery chat_id int string

fun chat_of :: "update \<Rightarrow> chat_id" where
  "chat_of (Message chat _) = chat"
| "chat_of (CallbackQuery chat _ _) = chat"

fun user_reply_of :: "update \<Rightarrow> string" where
  "user_reply_of (Message _ body) = body"
| "user_reply_of (CallbackQuery _ _ payload) = payload"

text \<open>A line of the cart's text (line 617).\<close>

record cart_line =
  ln_idx :: int
  ln_title :: title
  ln_qty :: real
  ln_price :: real
  ln_subtotal :: real

text \<open>
  The texts of the bot, each named for what it says, with the source line of its
  literal: \<open>Greeting\<close> 367, \<open>ChooseFish\<close> 372/494/657, \<open>PressStart\<close> 383,
  \<open>NoProductsYet\<close> 392, \<open>UnknownChoice\<close> 401, \<open>ProductFetchFailed\<close> 406,
  \<open>Card\<close> 415-420, \<open>UseCardButtons\<close> 475, \<open>UnknownAdd\<close> 507, \<open>ProductGone\<close> 512,
  \<open>Added\<close> 522, \<open>AddFailed\<close> 527, \<open>CartEmpty\<close> 571/595, \<open>CartText\<close> 602-635 (the
  lines and the sum), \<open>UseCartButtons\<close> 645, \<open>AskEmail\<close> 664, \<open>Removed\<close> 675,
  \<open>AlreadyRemoved\<close> 677, \<open>RemoveFailed\<close> 681, \<open>EmailAsPlainText\<close> 695,
  \<open>NotAnEmail\<close> 707, \<open>Thanks\<close> 718, \<open>ContinueShopping\<close> 722.
\<close>

datatype msg =
    Greeting | ChooseFish | PressStart | NoProductsYet | UnknownChoice
  | ProductFetchFailed | Card product | UseCardButtons | UnknownAdd | ProductGone
  | Added int real | AddFailed | CartEmpty | CartText "cart_line list" real
  | UseCartButtons | AskEmail | Removed | AlreadyRemoved | RemoveFailed
  | EmailAsPlainText | NotAnEmail | Thanks string | ContinueShopping

text \<open>The calls of the transport the bot makes.\<close>

datatype tg_call =
    Answer chat_id
  | ReplyText chat_id msg "keyboard option"
  | SendMessage chat_id msg "keyboard option"
  | SendPhoto chat_id msg keyboard
  | EditText chat_id int msg keyboard
  | DeleteMessage chat_id int

text \<open>\<^verbatim>\<open>context.user_data\<close>.\<close>

record user_data =
  last_menu_msg_id :: "int option"
  last_card_msg_id :: "int option"
  last_product_id :: "int option"

text \<open>
  The world a handler runs in: the backend's state, the calls the transport has
  carried out (oldest first), the scratch data of each chat, and the session store
  (Redis, lines 729-741: a label for each chat, read and written without failure).
\<close>

record 'b world =
  backend_state :: 'b
  outbox :: "tg_call list"
  user_data_of :: "chat_id \<Rightarrow> user_data"
  session :: "chat_id \<Rightarrow> string option"

text \<open>
  What a handler is given: the backend, its base URL, the two library functions, and
  the transport's verdict on a call, which may depend on the calls before it.
\<close>

record 'b env =
  env_backend :: "'b backend"
  env_base_url :: string
  env_urljoin :: "string \<Rightarrow> string \<Rightarrow> string"
  env_int :: "string \<Rightarrow> int option"
  env_tg_ok :: "tg_call list \<Rightarrow> tg_call \<Rightarrow> bool"

text \<open>A call of the transport: it is carried out and gives a message id, or it raises.\<close>

definition tg :: "'b env \<Rightarrow> tg_call \<Rightarrow> ('b world, int) action" where
  "tg env c w =
     (if env_tg_ok env (outbox w) c
      then (Inr (int (length (outbox w)) + 1), w\<lparr>outbox := outbox w @ [c]\<rparr>)
      else (Inl TelegramError, w))"

definition on_backend :: "('b, 'a) action \<Rightarrow> ('b world, 'a) action" where
  "on_backend m w = (case m (backend_state w) of (r, b') \<Rightarrow> (r, w\<lparr>backend_state := b'\<rparr>))"

definition get_user_data :: "chat_id \<Rightarrow> ('b world, user_data) action" where
  "get_user_data chat w = (Inr (user_data_of w chat), w)"

definition set_user_data :: "chat_id \<Rightarrow> (user_data \<Rightarrow> user_data) \<Rightarrow> ('b world, unit) action" where
  "set_user_data chat f w =
     (Inr (), w\<lparr>user_data_of := (user_data_of w)(chat := f (user_data_of w chat))\<rparr>)"

text \<open>A call whose result is not used.\<close>

definition tg_do :: "'b env \<Rightarrow> tg_call \<Rightarrow> ('b world, unit) action" where
  "tg_do env c = bnd (tg env c) (\<lambda>_. ret ())"

subsection \<open>Handlers (lines 362-726)\<close>

text \<open>\<^verbatim>\<open>start\<close> (lines 362-376).\<close>

definition start :: "'b env \<Rightarrow> update \<Rightarrow> ('b world, string) action" where
  "start env upd =
     bnd (on_backend (build_products_keyboard (env_backend env))) (\<lambda>keyboard.
     bnd (case upd of
            Message chat _ \<Rightarrow> tg env (ReplyText chat Greeting (Some keyboard))
          | CallbackQuery chat _ _ \<Rightarrow> tg env (ReplyText chat ChooseFish (Some keyboard))) (\<lambda>sent.
     bnd (set_user_data (chat_of upd) (\<lambda>u. u\<lparr>last_menu_msg_id := Some sent\<rparr>)) (\<lambda>_.
     ret STATE_HANDLE_MENU)))"

text \<open>\<^verbatim>\<open>send_cart_message\<close> (lines 543-567), the inner function of \<^verbatim>\<open>show_cart\<close>.\<close>

definition send_cart_message :: "'b env \<Rightarrow> update \<Rightarrow> bool \<Rightarrow> msg \<Rightarrow> keyboard \<Rightarrow> ('b world, unit) action" where
  "send_cart_message env upd replace_message body keyboard =
     (case upd of
        CallbackQuery chat message_id _ \<Rightarrow>
          if replace_message
          then catch (tg_do env (EditText chat message_id body keyboard))
                 (\<lambda>e. tg_do env (ReplyText chat body (Some keyboard)))
          else tg_do env (ReplyText chat body (Some keyboard))
      | Message chat _ \<Rightarrow> tg_do env (ReplyText chat body (Some keyboard)))"

text \<open>The loop of lines 587-592.\<close>

primrec positive_items :: "cart_item list \<Rightarrow> cart_item list" where
  "positive_items [] = []"
| "positive_items (cart_item # rest) =
     (if or_zero (ci_qty_kg cart_item) \<le> 0 then positive_items rest
      else cart_item # positive_items rest)"

text \<open>Lines 610-617: the line of an item, with its title, unit price and subtotal.\<close>

definition item_title :: "cart_item \<Rightarrow> title" where
  "item_title cart_item =
     (case ci_product cart_item of
        None \<Rightarrow> Untitled None
      | Some pr \<Rightarrow> title_or (pr_title pr) (pr_id pr))"

definition item_price :: "cart_item \<Rightarrow> real" where
  "item_price cart_item =
     (case ci_product cart_item of None \<Rightarrow> 0 | Some pr \<Rightarrow> or_zero (pr_price pr))"

definition item_line :: "int \<Rightarrow> cart_item \<Rightarrow> cart_line" where
  "item_line idx cart_item =
     (let qty = or_zero (ci_qty_kg cart_item);
          price = item_price cart_item;
          subtotal = qty * price
      in \<lparr>ln_idx = idx, ln_title = item_title cart_item, ln_qty = qty, ln_price = price,
           ln_subtotal = subtotal\<rparr>)"

text \<open>
  The loop of lines 606-625, with its index and its three accumulators: the lines, the
  sum and the buttons. An item whose identifier is not truthy is passed over (line 608).
\<close>

fun cart_loop ::
  "int \<Rightarrow> cart_item list \<Rightarrow> cart_line list \<times> real \<times> keyboard \<Rightarrow> cart_line list \<times> real \<times> keyboard" where
  "cart_loop idx [] acc = acc"
| "cart_loop idx (cart_item # rest) (lns, running_total, buttons) =
     (let item_id = get_cart_item_identifier cart_item
      in if \<not> truthy item_id then cart_loop (idx + 1) rest (lns, running_total, buttons)
         else
           let ln = item_line idx cart_item
           in cart_loop (idx + 1) rest
                (lns @ [ln],
                 running_total + ln_subtotal ln,
                 buttons @ [''remove_item_'' @ py_str item_id]))"

text \<open>Lines 587-635: the text and the keyboard of the cart, from the items of the backend.\<close>

definition cart_view :: "cart_item list \<Rightarrow> msg \<times> keyboard" where
  "cart_view cart_items_raw =
     (let cart_items = positive_items cart_items_raw
      in if cart_items = [] then (CartEmpty, [''back_to_menu''])
         else case cart_loop 1 cart_items ([], 0, []) of
                (lns, running_total, buttons) \<Rightarrow>
                  (CartText lns running_total, buttons @ [''pay''] @ [''back_to_menu'']))"

text \<open>\<^verbatim>\<open>show_cart\<close> (lines 535-638).\<close>

definition show_cart :: "'b env \<Rightarrow> update \<Rightarrow> bool \<Rightarrow> ('b world, string) action" where
  "show_cart env upd replace_message =
     bnd (case upd of
            CallbackQuery chat _ _ \<Rightarrow> tg_do env (Answer chat)
          | Message _ _ \<Rightarrow> ret ()) (\<lambda>_.
     bnd (on_backend (get_cart_by_tg (env_backend env) (str_int (chat_of upd)))) (\<lambda>cart.
       case cart of
         None \<Rightarrow>
           bnd (send_cart_message env upd replace_message CartEmpty [''back_to_menu'']) (\<lambda>_.
           ret STATE_HANDLE_CART)
       | Some c \<Rightarrow>
           bnd (on_backend (get_cart_items_with_products (env_backend env) (c_id c)))
             (\<lambda>cart_items_raw.
                case cart_view cart_items_raw of
                  (body, keyboard) \<Rightarrow>
                    bnd (send_cart_message env upd replace_message body keyboard) (\<lambda>_.
                    ret STATE_HANDLE_CART))))"

text \<open>The picture of line 438: fetched, and its status checked.\<close>

definition fetch_image :: "'b backend \<Rightarrow> string \<Rightarrow> ('b, unit) action" where
  "fetch_image api image_url b =
     (case get_image api image_url b of
        (NoReply, b') \<Rightarrow> (Inl RequestException, b')
      | (Reply st bd, b') \<Rightarrow>
          if raises_for_status st then (Inl (HTTPError st), b') else (Inr (), b'))"

text \<open>Lines 409-467 of \<^verbatim>\<open>handle_menu\<close>: the card of a product.\<close>

definition show_product_card :: "'b env \<Rightarrow> chat_id \<Rightarrow> int \<Rightarrow> product \<Rightarrow> ('b world, string) action" where
  "show_product_card env chat message_id p =
     bnd (get_user_data chat) (\<lambda>ud.
     let menu_msg_id = (case last_menu_msg_id ud of
                          None \<Rightarrow> message_id
                        | Some m \<Rightarrow> if m \<noteq> 0 then m else message_id);
         keyboard = [''add_'' @ str_int (p_id p), ''show_cart'', ''back_to_menu'']
     in
     bnd (catch (tg_do env (DeleteMessage chat menu_msg_id)) (\<lambda>e. ret ())) (\<lambda>_.
     bnd (if p_image_url p \<noteq> []
          then catch
                 (bnd (on_backend (fetch_image (env_backend env) (p_image_url p))) (\<lambda>_.
                  tg env (SendPhoto chat (Card p) keyboard)))
                 (\<lambda>e. tg env (SendMessage chat (Card p) (Some keyboard)))
          else tg env (SendMessage chat (Card p) (Some keyboard))) (\<lambda>sent.
     bnd (set_user_data chat
            (\<lambda>u. u\<lparr>last_card_msg_id := Some sent, last_product_id := Some (p_id p)\<rparr>)) (\<lambda>_.
     ret STATE_HANDLE_DESCRIPTION))))"

text \<open>\<^verbatim>\<open>handle_menu\<close> (lines 379-467).\<close>

definition handle_menu :: "'b env \<Rightarrow> update \<Rightarrow> ('b world, string) action" where
  "handle_menu env upd =
     (case upd of
        Message chat _ \<Rightarrow>
          bnd (tg env (ReplyText chat PressStart None)) (\<lambda>_. ret STATE_START)
      | CallbackQuery chat message_id callback_data \<Rightarrow>
          bnd (tg env (Answer chat)) (\<lambda>_.
          if callback_data = ''no_products''
          then bnd (tg env (ReplyText chat NoProductsYet None)) (\<lambda>_. ret STATE_START)
          else if callback_data = ''show_cart'' then show_cart env upd False
          else
            case env_int env callback_data of
              None \<Rightarrow>
                bnd (tg env (ReplyText chat UnknownChoice None)) (\<lambda>_. ret STATE_HANDLE_MENU)
            | Some product_id \<Rightarrow>
                bnd (on_backend (get_product_by_id (env_urljoin env) (env_base_url env)
                       (env_backend env) product_id)) (\<lambda>product.
                  case product of
                    None \<Rightarrow>
                      bnd (tg env (ReplyText chat ProductFetchFailed None)) (\<lambda>_.
                      ret STATE_HANDLE_MENU)
                  | Some p \<Rightarrow> show_product_card env chat message_id p)))"

text \<open>Lines 515-530 of \<^verbatim>\<open>handle_description\<close>: the product goes into the cart.\<close>

definition add_to_cart :: "'b env \<Rightarrow> chat_id \<Rightarrow> int \<Rightarrow> product \<Rightarrow> ('b world, string) action" where
  "add_to_cart env chat product_id p =
     (let qty_val = (case p_qty_kg p of None \<Rightarrow> 1 | Some q \<Rightarrow> if q = 0 then 1 else q)
      in
      bnd (catch
             (bnd (on_backend (ensure_cart_exists (env_backend env) (str_int chat))) (\<lambda>cart.
                case cart of
                  None \<Rightarrow> throw AttributeError
                | Some c \<Rightarrow>
                    bnd (on_backend (add_or_increment_item (env_backend env) (c_id c)
                           product_id qty_val)) (\<lambda>_.
                    tg_do env (ReplyText chat (Added product_id qty_val) None))))
             (\<lambda>e. tg_do env (ReplyText chat AddFailed None))) (\<lambda>_.
      ret STATE_HANDLE_DESCRIPTION))"

text \<open>\<^verbatim>\<open>handle_description\<close> (lines 470-532).\<close>

definition handle_description :: "'b env \<Rightarrow> update \<Rightarrow> ('b world, string) action" where
  "handle_description env upd =
     (case upd of
        Message chat _ \<Rightarrow>
          bnd (tg env (ReplyText chat UseCardButtons None)) (\<lambda>_.
          ret STATE_HANDLE_DESCRIPTION)
      | CallbackQuery chat message_id callback_data \<Rightarrow>
          bnd (tg env (Answer chat)) (\<lambda>_.
          if callback_data = ''back_to_menu''
          then
            bnd (get_user_data chat) (\<lambda>ud.
            bnd (case last_card_msg_id ud of
                   None \<Rightarrow> ret ()
                 | Some card_id \<Rightarrow>
                     if card_id \<noteq> 0
                     then catch (tg_do env (DeleteMessage chat card_id)) (\<lambda>e. ret ())
                     else ret ()) (\<lambda>_.
            bnd (on_backend (build_products_keyboard (env_backend env))) (\<lambda>keyboard.
            bnd (tg env (SendMessage chat ChooseFish (Some keyboard))) (\<lambda>sent.
            bnd (set_user_data chat (\<lambda>u. u\<lparr>last_menu_msg_id := Some sent\<rparr>)) (\<lambda>_.
            ret STATE_HANDLE_MENU)))))
          else if callback_data = ''show_cart'' then show_cart env upd False
          else if startswith callback_data ''add_''
          then
            case env_int env (drop 4 callback_data) of
              None \<Rightarrow>
                bnd (tg env (ReplyText chat UnknownAdd None)) (\<lambda>_.
                ret STATE_HANDLE_DESCRIPTION)
            | Some product_id \<Rightarrow>
                bnd (on_backend (get_product_by_id (env_urljoin env) (env_base_url env)
                       (env_backend env) product_id)) (\<lambda>product.
                  case product of
                    None \<Rightarrow>
                      bnd (tg env (ReplyText chat ProductGone None)) (\<lambda>_.
                      ret STATE_HANDLE_DESCRIPTION)
                  | Some p \<Rightarrow> add_to_cart env chat product_id p)
          else ret STATE_HANDLE_DESCRIPTION))"

text \<open>
  Lines 670-682 of \<^verbatim>\<open>handle_cart\<close>: the item is deleted, then hidden, and the user is
  told; an exception of either call, or of the telling, is caught and answered.
\<close>

definition remove_from_cart :: "'b env \<Rightarrow> chat_id \<Rightarrow> string \<Rightarrow> ('b world, unit) action" where
  "remove_from_cart env chat item_id =
     catch
       (bnd (on_backend (delete_cart_item (env_backend env) (PyStr item_id))) (\<lambda>deleted.
        bnd (on_backend (hide_cart_item (env_backend env) (PyStr item_id))) (\<lambda>soft_deleted.
        if deleted \<or> soft_deleted then tg_do env (ReplyText chat Removed None)
        else tg_do env (ReplyText chat AlreadyRemoved None))))
       (\<lambda>e. tg_do env (ReplyText chat RemoveFailed None))"

text \<open>\<^verbatim>\<open>handle_cart\<close> (lines 641-686).\<close>

definition handle_cart :: "'b env \<Rightarrow> update \<Rightarrow> ('b world, string) action" where
  "handle_cart env upd =
     (case upd of
        Message chat _ \<Rightarrow>
          bnd (tg env (ReplyText chat UseCartButtons None)) (\<lambda>_. ret STATE_HANDLE_CART)
      | CallbackQuery chat message_id callback_data \<Rightarrow>
          bnd (tg env (Answer chat)) (\<lambda>_.
          if callback_data = ''back_to_menu''
          then
            bnd (on_backend (build_products_keyboard (env_backend env))) (\<lambda>keyboard.
            bnd (tg env (SendMessage chat ChooseFish (Some keyboard))) (\<lambda>sent.
            bnd (set_user_data chat (\<lambda>u. u\<lparr>last_menu_msg_id := Some sent\<rparr>)) (\<lambda>_.
            ret STATE_HANDLE_MENU)))
          else if callback_data = ''pay''
          then bnd (tg env (ReplyText chat AskEmail None)) (\<lambda>_. ret STATE_WAITING_EMAIL)
          else if startswith callback_data ''remove_item_''
          then
            bnd (remove_from_cart env chat (after_last_underscore callback_data)) (\<lambda>_.
            show_cart env upd True)
          else ret STATE_HANDLE_CART))"

text \<open>\<^verbatim>\<open>handle_waiting_email\<close> (lines 689-726).\<close>

definition handle_waiting_email :: "'b env \<Rightarrow> update \<Rightarrow> ('b world, string) action" where
  "handle_waiting_email env upd =
     (case upd of
        CallbackQuery chat _ _ \<Rightarrow>
          bnd (tg env (Answer chat)) (\<lambda>_.
          bnd (tg env (ReplyText chat EmailAsPlainText None)) (\<lambda>_.
          ret STATE_WAITING_EMAIL))
      | Message chat body \<Rightarrow>
          (let email = strip body
           in if CHR ''@'' \<notin> set email \<or> CHR ''.'' \<notin> set email
              then bnd (tg env (ReplyText chat NotAnEmail None)) (\<lambda>_. ret STATE_WAITING_EMAIL)
              else
                bnd (catch
                       (bnd (on_backend (create_or_update_client (env_backend env)
                               (str_int chat) email)) (\<lambda>_. ret ()))
                       (\<lambda>e. ret ())) (\<lambda>_.
                bnd (tg env (ReplyText chat (Thanks email) None)) (\<lambda>_.
                bnd (on_backend (build_products_keyboard (env_backend env))) (\<lambda>keyboard.
                bnd (tg env (ReplyText chat ContinueShopping (Some keyboard))) (\<lambda>sent.
                bnd (set_user_data chat (\<lambda>u. u\<lparr>last_menu_msg_id := Some sent\<rparr>)) (\<lambda>_.
                ret STATE_HANDLE_MENU)))))))"

subsection \<open>The dispatcher (lines 744-777)\<close>

text \<open>Lines 756-760: the state the update is handled in.\<close>

definition user_state_of :: "'b world \<Rightarrow> update \<Rightarrow> string" where
  "user_state_of w upd =
     (if user_reply_of upd = ''/start'' then STATE_START
      else case session w (chat_of upd) of
             None \<Rightarrow> STATE_START
           | Some saved_state \<Rightarrow> if saved_state \<noteq> [] then saved_state else STATE_START)"

text \<open>Lines 762-768: the dispatch table.\<close>

definition states :: "(string \<times> ('b env \<Rightarrow> update \<Rightarrow> ('b world, string) action)) list" where
  "states =
     [(STATE_START, start),
      (STATE_HANDLE_MENU, handle_menu),
      (STATE_HANDLE_DESCRIPTION, handle_description),
      (STATE_HANDLE_CART, handle_cart),
      (STATE_WAITING_EMAIL, handle_waiting_email)]"

text \<open>Line 770: \<^verbatim>\<open>states.get(user_state, start)\<close>.\<close>

definition state_handler :: "string \<Rightarrow> 'b env \<Rightarrow> update \<Rightarrow> ('b world, string) action" where
  "state_handler user_state = (case map_of states user_state of None \<Rightarrow> start | Some h \<Rightarrow> h)"

text \<open>\<^verbatim>\<open>handle_users_reply\<close> (lines 744-777): the world after the update.\<close>

definition handle_users_reply :: "'b env \<Rightarrow> update \<Rightarrow> 'b world \<Rightarrow> 'b world" where
  "handle_users_reply env upd w =
     (case state_handler (user_state_of w upd) env upd w of
        (Inr next_state, w') \<Rightarrow> w'\<lparr>session := (session w')(chat_of upd \<mapsto> next_state)\<rparr>
      | (Inl e, w') \<Rightarrow> w'\<lparr>session := (session w')(chat_of upd \<mapsto> STATE_START)\<rparr>)"


subsection \<open>A backend in memory, and the environments of the examples\<close>

text \<open>
  Modelled from the spec: the content backend, which is not part of the repository. For
  the properties that speak of what a sequence of calls leaves behind, the cart
  resources are served from memory, the way section 6 of the specification describes
  them: a cart is kept under the chat identity
  it was created for, an item under its cart and product. An item has a numeric id and a
  document id, and \<^verbatim>\<open>PUT\<close> and \<^verbatim>\<open>DELETE\<close> name it by the document id. Ids are given out
  in order, so a new record's id is unused; document ids are opaque strings, here the
  id in unary.
\<close>

record stored_item =
  si_id :: nat
  si_cart :: int
  si_product :: int
  si_qty :: real

record store =
  st_carts :: "cart list"
  st_items :: "stored_item list"

definition doc_of :: "nat \<Rightarrow> string" where
  "doc_of n = replicate (Suc n) CHR ''x''"

definition item_json :: "stored_item \<Rightarrow> cart_item" where
  "item_json i =
     \<lparr> ci_id = Some (int (si_id i)), ci_documentId = Some (doc_of (si_id i)),
       ci_qty_kg = Some (si_qty i), ci_product = None \<rparr>"

text \<open>With \<^verbatim>\<open>populate=product\<close> the item carries its product, of which the store knows the id.\<close>

definition item_json_populated :: "stored_item \<Rightarrow> cart_item" where
  "item_json_populated i =
     (item_json i)\<lparr>ci_product :=
        Some \<lparr>pr_id = Some (si_product i), pr_title = None, pr_price = None\<rparr>\<rparr>"

definition mem_get_carts :: "string \<Rightarrow> store \<Rightarrow> cart list reply \<times> store" where
  "mem_get_carts tg_id st =
     (Reply 200 (Data (Some (filter (\<lambda>c. c_tg_id c = tg_id) (st_carts st)))), st)"

definition mem_post_cart :: "string \<Rightarrow> store \<Rightarrow> cart reply \<times> store" where
  "mem_post_cart tg_id st =
     (let c = \<lparr>c_id = 1 + foldr max (map c_id (st_carts st)) 0, c_tg_id = tg_id\<rparr>
      in (Reply 201 (Data (Some c)), st\<lparr>st_carts := st_carts st @ [c]\<rparr>))"

definition mem_get_cart_items :: "int \<Rightarrow> int \<Rightarrow> store \<Rightarrow> cart_item list reply \<times> store" where
  "mem_get_cart_items cid pid st =
     (Reply 200 (Data (Some (map item_json
        (filter (\<lambda>i. si_cart i = cid \<and> si_product i = pid) (st_items st))))), st)"

definition mem_get_cart_items_populated :: "int \<Rightarrow> store \<Rightarrow> cart_item list reply \<times> store" where
  "mem_get_cart_items_populated cid st =
     (Reply 200 (Data (Some (map item_json_populated
        (filter (\<lambda>i. si_cart i = cid) (st_items st))))), st)"

definition mem_post_cart_item :: "int \<Rightarrow> int \<Rightarrow> real \<Rightarrow> store \<Rightarrow> cart_item reply \<times> store" where
  "mem_post_cart_item cid pid qty st =
     (let i = \<lparr>si_id = Suc (foldr max (map si_id (st_items st)) 0), si_cart = cid,
                si_product = pid, si_qty = qty\<rparr>
      in (Reply 201 (Data (Some (item_json i))), st\<lparr>st_items := st_items st @ [i]\<rparr>))"

definition mem_put_cart_item :: "string \<Rightarrow> real \<Rightarrow> store \<Rightarrow> cart_item reply \<times> store" where
  "mem_put_cart_item seg qty st =
     (case filter (\<lambda>i. doc_of (si_id i) = seg) (st_items st) of
        [] \<Rightarrow> (Reply 404 NoJson, st)
      | i # _ \<Rightarrow>
          (Reply 200 (Data (Some (item_json (i\<lparr>si_qty := qty\<rparr>)))),
           st\<lparr>st_items :=
                map (\<lambda>j. if doc_of (si_id j) = seg then j\<lparr>si_qty := qty\<rparr> else j) (st_items st)\<rparr>))"

definition mem_delete_cart_item :: "string \<Rightarrow> store \<Rightarrow> unit reply \<times> store" where
  "mem_delete_cart_item seg st =
     (if \<exists>i \<in> set (st_items st). doc_of (si_id i) = seg
      then (Reply 204 NoJson,
            st\<lparr>st_items := filter (\<lambda>j. doc_of (si_id j) \<noteq> seg) (st_items st)\<rparr>)
      else (Reply 404 NoJson, st))"

text \<open>A backend that cannot be reached: every request raises.\<close>

definition offline :: "'b backend" where
  "offline =
     \<lparr> get_products = (\<lambda>b. (NoReply, b)),
       get_product = (\<lambda>_ b. (NoReply, b)),
       get_image = (\<lambda>_ b. (NoReply, b)),
       get_carts = (\<lambda>_ b. (NoReply, b)),
       post_cart = (\<lambda>_ b. (NoReply, b)),
       get_cart_items = (\<lambda>_ _ b. (NoReply, b)),
       get_cart_items_populated = (\<lambda>_ b. (NoReply, b)),
       post_cart_item = (\<lambda>_ _ _ b. (NoReply, b)),
       put_cart_item = (\<lambda>_ _ b. (NoReply, b)),
       delete_cart_item_req = (\<lambda>_ b. (NoReply, b)),
       get_clients = (\<lambda>_ b. (NoReply, b)),
       post_client = (\<lambda>_ _ b. (NoReply, b)),
       put_client = (\<lambda>_ _ b. (NoReply, b)) \<rparr>"

text \<open>The backend in memory: its cart resources answer, the catalogue and the clients do not.\<close>

definition mem_backend :: "store backend" where
  "mem_backend =
     offline
       \<lparr> get_carts := mem_get_carts,
         post_cart := mem_post_cart,
         get_cart_items := mem_get_cart_items,
         get_cart_items_populated := mem_get_cart_items_populated,
         post_cart_item := mem_post_cart_item,
         put_cart_item := mem_put_cart_item,
         delete_cart_item_req := mem_delete_cart_item \<rparr>"

text \<open>
  An environment for the examples: a transport that carries out every call, a base URL,
  \<^verbatim>\<open>urljoin\<close> as it acts on a base without a path and a reference that is an absolute
  path (the two are put together), and \<^verbatim>\<open>int\<close> as it acts on a string of ASCII digits.
\<close>

definition digits_value :: "string \<Rightarrow> int option" where
  "digits_value s =
     (if s \<noteq> [] \<and> list_all (\<lambda>c. 48 \<le> (of_char c :: nat) \<and> (of_char c :: nat) \<le> 57) s
      then Some (foldl (\<lambda>a c. 10 * a + (int (of_char c) - 48)) 0 s)
      else None)"

definition example_env :: "'b backend \<Rightarrow> 'b env" where
  "example_env api =
     \<lparr> env_backend = api,
       env_base_url = ''http://localhost:1337'',
       env_urljoin = (\<lambda>base ref. base @ ref),
       env_int = digits_value,
       env_tg_ok = (\<lambda>_ _. True) \<rparr>"

definition empty_world :: "'b \<Rightarrow> 'b world" where
  "empty_world b =
     \<lparr> backend_state = b,
       outbox = [],
       user_data_of = (\<lambda>_. \<lparr>last_menu_msg_id = None, last_card_msg_id = None,
                              last_product_id = None\<rparr>),
       session = (\<lambda>_. None) \<rparr>"

text \<open>The transport carries out every call.\<close>

definition reliable :: "'b env \<Rightarrow> bool" where
  "reliable env \<longleftrightarrow> (\<forall>h c. env_tg_ok env h c)"


subsection \<open>Notions of the properties\<close>

text \<open>\<^verbatim>\<open>enumerate(xs, start=i)\<close>.\<close>

primrec numbered :: "int \<Rightarrow> 'a list \<Rightarrow> (int \<times> 'a) list" where
  "numbered i [] = []"
| "numbered i (x # xs) = (i, x) # numbered (i + 1) xs"






text \<open>An item of two kilograms at ten a kilogram that carries no id and no document id.\<close>

definition nameless_item :: cart_item where
  "nameless_item =
     \<lparr> ci_id = None, ci_documentId = None, ci_qty_kg = Some 2,
       ci_product = Some \<lparr>pr_id = Some 7, pr_title = Some ''Salmon'', pr_price = Some 10\<rparr> \<rparr>"


text \<open>
  The calls \<^verbatim>\<open>show_cart\<close> makes of a transport that carries them out, for a text and a
  keyboard: the press is acknowledged, and the text is sent, or put in the place of the
  message of the button when the cart is drawn again.
\<close>

definition cart_calls :: "update \<Rightarrow> bool \<Rightarrow> msg \<Rightarrow> keyboard \<Rightarrow> tg_call list" where
  "cart_calls upd replace_message body keyboard =
     (case upd of
        Message chat _ \<Rightarrow> [ReplyText chat body (Some keyboard)]
      | CallbackQuery chat message_id _ \<Rightarrow>
          [Answer chat,
           if replace_message then EditText chat message_id body keyboard
           else ReplyText chat body (Some keyboard)])"

text \<open>
  Five kilograms of salmon at ten a kilogram, an item hidden by a quantity of zero, and
  a backend that answers with one cart and these two items.
\<close>

definition salmon_item :: cart_item where
  "salmon_item =
     \<lparr> ci_id = Some 11, ci_documentId = Some ''abc'', ci_qty_kg = Some 5,
       ci_product = Some \<lparr>pr_id = Some 7, pr_title = Some ''Salmon'', pr_price = Some 10\<rparr> \<rparr>"

definition hidden_item :: cart_item where
  "hidden_item =
     \<lparr> ci_id = Some 12, ci_documentId = Some ''abd'', ci_qty_kg = Some 0,
       ci_product = Some \<lparr>pr_id = Some 8, pr_title = Some ''Trout'', pr_price = Some 8\<rparr> \<rparr>"

definition cart_of_two :: "unit backend" where
  "cart_of_two =
     offline
       \<lparr> get_carts := (\<lambda>_ b. (Reply 200 (Data (Some [\<lparr>c_id = 3, c_tg_id = ''1''\<rparr>])), b)),
         get_cart_items_populated :=
           (\<lambda>_ b. (Reply 200 (Data (Some [hidden_item, salmon_item])), b)) \<rparr>"


text \<open>A store in memory with one item, whose document id is \<open>xxx\<close>.\<close>

definition one_item_store :: store where
  "one_item_store =
     \<lparr> st_carts = [\<lparr>c_id = 3, c_tg_id = ''1''\<rparr>],
       st_items = [\<lparr>si_id = 2, si_cart = 3, si_product = 7, si_qty = 5\<rparr>] \<rparr>"


text \<open>
  A backend on which the item found is gone when it is updated (404), as after a delete
  by someone else; its state lists the quantities of the items it was asked to create.
\<close>

definition racing_delete :: "real list backend" where
  "racing_delete =
     offline
       \<lparr> get_cart_items := (\<lambda>_ _ b. (Reply 200 (Data (Some [salmon_item])), b)),
         post_cart_item := (\<lambda>_ _ qty b.
           (Reply 201 (Data (Some (salmon_item\<lparr>ci_id := Some 13, ci_documentId := Some ''abe'',
                                                 ci_qty_kg := Some qty\<rparr>))), b @ [qty])),
         put_cart_item := (\<lambda>_ _ b. (Reply 404 NoJson, b)) \<rparr>"



section \<open>Properties\<close>

subsection \<open>The monad of results\<close>

lemma bnd_ret: "bnd (ret x) f s = f x s"
  by (simp add: bnd_def ret_def)

lemma bnd_throw: "bnd (throw e) f s = (Inl e, s)"
  by (simp add: bnd_def throw_def)

lemma bnd_Inr: "m s = (Inr x, s') \<Longrightarrow> bnd m f s = f x s'"
  by (simp add: bnd_def)

lemma bnd_Inl: "m s = (Inl e, s') \<Longrightarrow> bnd m f s = (Inl e, s')"
  by (simp add: bnd_def)

lemma catch_Inr: "m s = (Inr x, s') \<Longrightarrow> catch m h s = (Inr x, s')"
  by (simp add: catch_def)

lemma catch_Inl: "m s = (Inl e, s') \<Longrightarrow> catch m h s = h e s'"
  by (simp add: catch_def)

subsection \<open>The image of a product\<close>


subsection \<open>Running a handler\<close>

lemmas run_defs = bnd_def ret_def throw_def catch_def tg_def tg_do_def on_backend_def
  get_user_data_def set_user_data_def request_def

lemmas example_defs = example_env_def empty_world_def offline_def

lemmas label_defs = STATE_START_def STATE_HANDLE_MENU_def STATE_HANDLE_DESCRIPTION_def
  STATE_HANDLE_CART_def STATE_WAITING_EMAIL_def

lemma tg_reliable:
  "reliable env \<Longrightarrow>
     tg env c w = (Inr (int (length (outbox w)) + 1), w\<lparr>outbox := outbox w @ [c]\<rparr>)"
  by (simp add: tg_def reliable_def)

lemma tg_do_reliable:
  "reliable env \<Longrightarrow> tg_do env c w = (Inr (), w\<lparr>outbox := outbox w @ [c]\<rparr>)"
  by (simp add: tg_do_def bnd_def ret_def tg_reliable)

lemma reliable_example_env: "reliable (example_env api)"
  by (simp add: reliable_def example_env_def)

lemma fetch_products_total: "\<exists>ps b'. fetch_products api b = (Inr ps, b')"
  by (auto simp: fetch_products_def catch_def bnd_def ret_def split: prod.splits sum.splits)

lemma build_products_keyboard_total: "\<exists>kb b'. build_products_keyboard api b = (Inr kb, b')"
  using fetch_products_total [of api b]
  by (auto simp: build_products_keyboard_def bnd_def ret_def Let_def)

lemma start_offline:
  "start (example_env offline) upd w =
     (Inr STATE_HANDLE_MENU,
      w\<lparr>outbox := outbox w @ [ReplyText (chat_of upd)
            (case upd of Message _ _ \<Rightarrow> Greeting | CallbackQuery _ _ _ \<Rightarrow> ChooseFish)
            (Some [''no_products'', ''show_cart''])],
        user_data_of := (user_data_of w)(chat_of upd :=
           (user_data_of w (chat_of upd))\<lparr>last_menu_msg_id := Some (int (length (outbox w)) + 1)\<rparr>)\<rparr>)"
  by (cases upd)
     (simp_all add: start_def build_products_keyboard_def fetch_products_def run_defs example_defs)

subsection \<open>The dispatcher\<close>

lemma state_handler_unknown:
  "label \<notin> {STATE_START, STATE_HANDLE_MENU, STATE_HANDLE_DESCRIPTION, STATE_HANDLE_CART,
              STATE_WAITING_EMAIL}
   \<Longrightarrow> state_handler label = start"
  by (simp add: state_handler_def states_def)

lemma state_handler_start: "state_handler STATE_START = start"
  by (simp add: state_handler_def states_def)

text \<open>
  Claim C9. When the session store holds, for the chat of an update, a label that is none
  of the five state labels, the dispatcher runs the handler \<open>start\<close> on the update (the
  default of the dispatch table), and commits what \<open>start\<close> returns: the update is
  handled whatever the stored label is.
\<close>

theorem unknown_label_dispatches_to_start:
  assumes "session w (chat_of upd) = Some label"
    and "label \<notin> {STATE_START, STATE_HANDLE_MENU, STATE_HANDLE_DESCRIPTION, STATE_HANDLE_CART,
                   STATE_WAITING_EMAIL}"
  shows "state_handler (user_state_of w upd) env upd w = start env upd w \<and>
         handle_users_reply env upd w =
           (case start env upd w of
              (Inr next_state, w') \<Rightarrow> w'\<lparr>session := (session w')(chat_of upd \<mapsto> next_state)\<rparr>
            | (Inl e, w') \<Rightarrow> w'\<lparr>session := (session w')(chat_of upd \<mapsto> STATE_START)\<rparr>)"
proof -
  have "state_handler (user_state_of w upd) =
          (start :: 'a env \<Rightarrow> update \<Rightarrow> ('a world, string) action)"
  proof (cases "user_reply_of upd = ''/start'' \<or> label = []")
    case True
    then have "user_state_of w upd = STATE_START"
      using assms by (auto simp: user_state_of_def)
    then show ?thesis by (simp add: state_handler_start)
  next
    case False
    then have "user_state_of w upd = label"
      using assms by (auto simp: user_state_of_def)
    then show ?thesis using assms(2) by (simp add: state_handler_unknown)
  qed
  then show ?thesis by (simp add: handle_users_reply_def)
qed

text \<open>
  The store holds a label of another version for chat 1; a text message of that chat is
  answered with the catalogue, and the chat is in the menu state afterwards.
\<close>

theorem unknown_label_dispatches_to_start_witness:
  "session ((empty_world ())\<lparr>session := [1 \<mapsto> ''CHECKOUT_V2'']\<rparr>) (chat_of (Message 1 ''hello''))
     = Some ''CHECKOUT_V2'' \<and>
   ''CHECKOUT_V2'' \<notin> {STATE_START, STATE_HANDLE_MENU, STATE_HANDLE_DESCRIPTION,
                        STATE_HANDLE_CART, STATE_WAITING_EMAIL} \<and>
   session (handle_users_reply (example_env offline) (Message 1 ''hello'')
              ((empty_world ())\<lparr>session := [1 \<mapsto> ''CHECKOUT_V2'']\<rparr>)) 1 = Some STATE_HANDLE_MENU \<and>
   outbox (handle_users_reply (example_env offline) (Message 1 ''hello'')
              ((empty_world ())\<lparr>session := [1 \<mapsto> ''CHECKOUT_V2'']\<rparr>)) =
     [ReplyText 1 Greeting (Some [''no_products'', ''show_cart''])]"
  using unknown_label_dispatches_to_start
          [of "(empty_world ())\<lparr>session := [1 \<mapsto> ''CHECKOUT_V2'']\<rparr>" "Message 1 ''hello''"
              "''CHECKOUT_V2''" "example_env offline"]
  by (simp add: start_offline label_defs empty_world_def)

text \<open>
  Claim C4. When the handler the dispatcher runs on an update raises, the dispatcher
  keeps what the handler did up to there, does nothing more for the update, and sets
  the state of the chat to \<open>START\<close>, whatever state the update was handled in. Every
  later update of the chat is then handled in the state \<open>START\<close>, by the handler
  \<open>start\<close>.
\<close>

theorem handler_failure_resets_state:
  assumes "fst (state_handler (user_state_of w upd) env upd w) = Inl e"
  shows "handle_users_reply env upd w =
           (snd (state_handler (user_state_of w upd) env upd w))
             \<lparr>session := (session (snd (state_handler (user_state_of w upd) env upd w)))
                           (chat_of upd \<mapsto> STATE_START)\<rparr> \<and>
         session (handle_users_reply env upd w) (chat_of upd) = Some STATE_START \<and>
         (\<forall>upd'. chat_of upd' = chat_of upd \<longrightarrow>
            user_state_of (handle_users_reply env upd w) upd' = STATE_START \<and>
            state_handler (user_state_of (handle_users_reply env upd w) upd') env upd'
              = start env upd')"
proof -
  obtain w' where h: "state_handler (user_state_of w upd) env upd w = (Inl e, w')"
    using assms by (cases "state_handler (user_state_of w upd) env upd w") auto
  have r: "handle_users_reply env upd w = w'\<lparr>session := (session w')(chat_of upd \<mapsto> STATE_START)\<rparr>"
    using h by (simp add: handle_users_reply_def)
  have s: "\<And>upd'. chat_of upd' = chat_of upd \<Longrightarrow>
             user_state_of (handle_users_reply env upd w) upd' = STATE_START"
    by (simp add: r user_state_of_def STATE_START_def)
  show ?thesis using h r s by (simp add: state_handler_start)
qed

text \<open>
  Chat 1 is in the menu state and asks for its cart while the backend cannot be
  reached: \<^verbatim>\<open>get_cart_by_tg\<close> raises in \<^verbatim>\<open>show_cart\<close>. The chat is in the state
  \<open>START\<close> afterwards, and its next message is handled by \<open>start\<close>.
\<close>

theorem handler_failure_resets_state_witness:
  "fst (state_handler (user_state_of ((empty_world ())\<lparr>session := [1 \<mapsto> STATE_HANDLE_MENU]\<rparr>)
          (CallbackQuery 1 5 ''show_cart'')) (example_env offline) (CallbackQuery 1 5 ''show_cart'')
          ((empty_world ())\<lparr>session := [1 \<mapsto> STATE_HANDLE_MENU]\<rparr>)) = Inl RequestException \<and>
   session (handle_users_reply (example_env offline) (CallbackQuery 1 5 ''show_cart'')
          ((empty_world ())\<lparr>session := [1 \<mapsto> STATE_HANDLE_MENU]\<rparr>)) 1 = Some STATE_START \<and>
   state_handler (user_state_of (handle_users_reply (example_env offline) (CallbackQuery 1 5 ''show_cart'')
          ((empty_world ())\<lparr>session := [1 \<mapsto> STATE_HANDLE_MENU]\<rparr>)) (Message 1 ''hello''))
       (example_env offline) (Message 1 ''hello'') =
     start (example_env offline) (Message 1 ''hello'')"
proof -
  have h: "fst (state_handler (user_state_of ((empty_world ())\<lparr>session := [1 \<mapsto> STATE_HANDLE_MENU]\<rparr>)
          (CallbackQuery 1 5 ''show_cart'')) (example_env offline) (CallbackQuery 1 5 ''show_cart'')
          ((empty_world ())\<lparr>session := [1 \<mapsto> STATE_HANDLE_MENU]\<rparr>)) = Inl RequestException"
    by (simp add: user_state_of_def state_handler_def states_def label_defs handle_menu_def
          show_cart_def get_cart_by_tg_def run_defs example_defs)
  note t = handler_failure_resets_state [OF h]
  have a: "session (handle_users_reply (example_env offline) (CallbackQuery 1 5 ''show_cart'')
          ((empty_world ())\<lparr>session := [1 \<mapsto> STATE_HANDLE_MENU]\<rparr>)) 1 = Some STATE_START"
    using t by simp
  have b: "state_handler (user_state_of (handle_users_reply (example_env offline) (CallbackQuery 1 5 ''show_cart'')
          ((empty_world ())\<lparr>session := [1 \<mapsto> STATE_HANDLE_MENU]\<rparr>)) (Message 1 ''hello''))
       (example_env offline) (Message 1 ''hello'') =
     start (example_env offline) (Message 1 ''hello'')"
    using t [THEN conjunct2, THEN conjunct2, THEN spec, of "Message 1 ''hello''"]
    by (simp add: state_handler_start)
  from h a b show ?thesis by blast
qed

subsection \<open>The email and the unmatched updates\<close>


lemma handle_waiting_email_invalid:
  assumes "reliable env" "CHR ''@'' \<notin> set (strip body) \<or> CHR ''.'' \<notin> set (strip body)"
  shows "handle_waiting_email env (Message chat body) w =
           (Inr STATE_WAITING_EMAIL, w\<lparr>outbox := outbox w @ [ReplyText chat NotAnEmail None]\<rparr>)"
  using assms by (auto simp: handle_waiting_email_def Let_def bnd_def ret_def tg_reliable)

lemma handle_waiting_email_valid:
  assumes rel: "reliable env"
    and ok: "CHR ''@'' \<in> set (strip body)" "CHR ''.'' \<in> set (strip body)"
  shows "\<exists>kb w'. 
           fst (build_products_keyboard (env_backend env)
                 (snd (create_or_update_client (env_backend env) (str_int chat) (strip body)
                        (backend_state w)))) = Inr kb \<and>
           handle_waiting_email env (Message chat body) w = (Inr STATE_HANDLE_MENU, w') \<and>
           outbox w' = outbox w @ [ReplyText chat (Thanks (strip body)) None,
                                   ReplyText chat ContinueShopping (Some kb)]"
proof -
  obtain r b1 where up: "create_or_update_client (env_backend env) (str_int chat) (strip body)
                        (backend_state w) = (r, b1)"
    by (cases "create_or_update_client (env_backend env) (str_int chat) (strip body) (backend_state w)")
  obtain kb b2 where kb: "build_products_keyboard (env_backend env) b1 = (Inr kb, b2)"
    using build_products_keyboard_total [of "env_backend env" b1] by auto
  have "handle_waiting_email env (Message chat body) w =
          (Inr STATE_HANDLE_MENU,
           w\<lparr>backend_state := b2,
             outbox := outbox w @ [ReplyText chat (Thanks (strip body)) None,
                                   ReplyText chat ContinueShopping (Some kb)],
             user_data_of := (user_data_of w)
               (chat := (user_data_of w chat)\<lparr>last_menu_msg_id := Some (2 + int (length (outbox w)))\<rparr>)\<rparr>)"
    using ok up kb rel
    by (cases r)
       (simp_all add: handle_waiting_email_def Let_def bnd_def ret_def catch_def tg_reliable
          on_backend_def set_user_data_def)
  with up kb show ?thesis by simp
qed

lemma strip_examples:
  "strip ''not-an-email'' = ''not-an-email''" "strip ''foo@bar'' = ''foo@bar''"
  "strip ''a@b.c'' = ''a@b.c''" "strip '' a@b.c  '' = ''a@b.c''"
  by (simp_all add: strip_def is_space_def)

text \<open>
  Claim C6. In the state of waiting for an email, with a transport that carries out the
  calls, a text is taken for an email exactly when, stripped of the white space around
  it, it holds an \<open>@\<close> and a dot: then the handler returns the menu state, and
  otherwise it sends the prompt to try again, nothing else, and returns the waiting
  state. The texts \<open>not-an-email\<close> and \<open>foo@bar\<close> are refused and \<open>a@b.c\<close> is taken.
\<close>

theorem email_validity_check:
  assumes "reliable env"
  shows "fst (handle_waiting_email env (Message chat body) w) =
           Inr (if CHR ''@'' \<in> set (strip body) \<and> CHR ''.'' \<in> set (strip body)
                then STATE_HANDLE_MENU else STATE_WAITING_EMAIL) \<and>
         (ReplyText chat NotAnEmail None
            \<in> set (drop (length (outbox w))
                      (outbox (snd (handle_waiting_email env (Message chat body) w))))
          \<longleftrightarrow> \<not> (CHR ''@'' \<in> set (strip body) \<and> CHR ''.'' \<in> set (strip body))) \<and>
         (\<not> (CHR ''@'' \<in> set (strip body) \<and> CHR ''.'' \<in> set (strip body)) \<longrightarrow>
            handle_waiting_email env (Message chat body) w =
              (Inr STATE_WAITING_EMAIL, w\<lparr>outbox := outbox w @ [ReplyText chat NotAnEmail None]\<rparr>)) \<and>
         fst (handle_waiting_email env (Message chat ''not-an-email'') w) = Inr STATE_WAITING_EMAIL \<and>
         fst (handle_waiting_email env (Message chat ''foo@bar'') w) = Inr STATE_WAITING_EMAIL \<and>
         fst (handle_waiting_email env (Message chat ''a@b.c'') w) = Inr STATE_HANDLE_MENU"
proof -
  have gen: "\<And>s. fst (handle_waiting_email env (Message chat s) w) =
           Inr (if CHR ''@'' \<in> set (strip s) \<and> CHR ''.'' \<in> set (strip s)
                then STATE_HANDLE_MENU else STATE_WAITING_EMAIL)"
  proof -
    fix s
    show "fst (handle_waiting_email env (Message chat s) w) =
           Inr (if CHR ''@'' \<in> set (strip s) \<and> CHR ''.'' \<in> set (strip s)
                then STATE_HANDLE_MENU else STATE_WAITING_EMAIL)"
    proof (cases "CHR ''@'' \<in> set (strip s) \<and> CHR ''.'' \<in> set (strip s)")
      case True
      then show ?thesis using handle_waiting_email_valid [OF assms, of s chat w] by auto
    next
      case False
      then show ?thesis using handle_waiting_email_invalid [OF assms, of s chat w] by auto
    qed
  qed
  have sent: "ReplyText chat NotAnEmail None
            \<in> set (drop (length (outbox w))
                      (outbox (snd (handle_waiting_email env (Message chat body) w))))
          \<longleftrightarrow> \<not> (CHR ''@'' \<in> set (strip body) \<and> CHR ''.'' \<in> set (strip body))"
  proof (cases "CHR ''@'' \<in> set (strip body) \<and> CHR ''.'' \<in> set (strip body)")
    case True
    then show ?thesis using handle_waiting_email_valid [OF assms, of body chat w] by auto
  next
    case False
    then show ?thesis using handle_waiting_email_invalid [OF assms, of body chat w] by auto
  qed
  have inv: "\<not> (CHR ''@'' \<in> set (strip body) \<and> CHR ''.'' \<in> set (strip body)) \<longrightarrow>
            handle_waiting_email env (Message chat body) w =
              (Inr STATE_WAITING_EMAIL, w\<lparr>outbox := outbox w @ [ReplyText chat NotAnEmail None]\<rparr>)"
    using handle_waiting_email_invalid [OF assms, of body chat w] by blast
  have e1: "fst (handle_waiting_email env (Message chat ''not-an-email'') w) = Inr STATE_WAITING_EMAIL"
    by (simp add: gen strip_examples)
  have e2: "fst (handle_waiting_email env (Message chat ''foo@bar'') w) = Inr STATE_WAITING_EMAIL"
    by (simp add: gen strip_examples)
  have e3: "fst (handle_waiting_email env (Message chat ''a@b.c'') w) = Inr STATE_HANDLE_MENU"
    by (simp add: gen strip_examples)
  from gen [of body] sent inv e1 e2 e3 show ?thesis by blast
qed

text \<open>
  Claim C10. In the state of waiting for an email, with a transport that carries out
  the calls, a text that passes the check is answered by the confirmation and then by
  the catalogue, and the handler returns the menu state, also when
  \<^verbatim>\<open>create_or_update_client\<close> raises: the exception is caught, and the user is told
  that the email was recorded.
\<close>

theorem email_recorded_despite_upsert_failure:
  assumes "reliable env"
    and "CHR ''@'' \<in> set (strip body)" "CHR ''.'' \<in> set (strip body)"
    and "fst (create_or_update_client (env_backend env) (str_int chat) (strip body)
               (backend_state w)) = Inl e"
  shows "\<exists>kb w'.
           fst (build_products_keyboard (env_backend env)
                 (snd (create_or_update_client (env_backend env) (str_int chat) (strip body)
                        (backend_state w)))) = Inr kb \<and>
           handle_waiting_email env (Message chat body) w = (Inr STATE_HANDLE_MENU, w') \<and>
           outbox w' = outbox w @ [ReplyText chat (Thanks (strip body)) None,
                                   ReplyText chat ContinueShopping (Some kb)]"
  using handle_waiting_email_valid [OF assms(1-3)] .

text \<open>With every request failing and a transport that works: one text refused, one taken.\<close>

theorem email_validity_check_witness:
  "reliable (example_env (offline :: unit backend)) \<and>
   handle_waiting_email (example_env offline) (Message 1 ''foo@bar'') (empty_world ()) =
     (Inr STATE_WAITING_EMAIL, (empty_world ())\<lparr>outbox := [ReplyText 1 NotAnEmail None]\<rparr>) \<and>
   fst (handle_waiting_email (example_env offline) (Message 1 ''a@b.c'') (empty_world ())) =
     Inr STATE_HANDLE_MENU"
  using email_validity_check [OF reliable_example_env, of offline 1 "''foo@bar''" "empty_world ()"]
  by (simp add: reliable_example_env strip_examples empty_world_def)

text \<open>The backend cannot be reached, so the upsert raises; the user is thanked all the same.\<close>

theorem email_recorded_despite_upsert_failure_witness:
  "reliable (example_env (offline :: unit backend)) \<and>
   CHR ''@'' \<in> set (strip ''a@b.c'') \<and> CHR ''.'' \<in> set (strip ''a@b.c'') \<and>
   fst (create_or_update_client (env_backend (example_env offline)) (str_int 1) (strip ''a@b.c'')
          (backend_state (empty_world ()))) = Inl RequestException \<and>
   fst (handle_waiting_email (example_env offline) (Message 1 ''a@b.c'') (empty_world ())) =
     Inr STATE_HANDLE_MENU \<and>
   outbox (snd (handle_waiting_email (example_env offline) (Message 1 ''a@b.c'') (empty_world ()))) =
     [ReplyText 1 (Thanks ''a@b.c'') None,
      ReplyText 1 ContinueShopping (Some [''no_products'', ''show_cart''])]"
proof -
  have up: "fst (create_or_update_client (env_backend (example_env offline)) (str_int 1)
                   (strip ''a@b.c'') (backend_state (empty_world ()))) = Inl RequestException"
    by (simp add: create_or_update_client_def find_client_by_tg_def run_defs example_defs)
  have kb: "\<And>b. fst (build_products_keyboard (env_backend (example_env offline)) (b :: unit)) =
              Inr [''no_products'', ''show_cart'']"
    by (simp add: build_products_keyboard_def fetch_products_def run_defs example_defs)
  have ok: "CHR ''@'' \<in> set (strip ''a@b.c'')" "CHR ''.'' \<in> set (strip ''a@b.c'')"
    by (simp_all add: strip_examples)
  from email_recorded_despite_upsert_failure [OF reliable_example_env ok up]
  have "fst (handle_waiting_email (example_env offline) (Message 1 ''a@b.c'') (empty_world ())) =
          Inr STATE_HANDLE_MENU \<and>
        outbox (snd (handle_waiting_email (example_env offline) (Message 1 ''a@b.c'') (empty_world ()))) =
          [ReplyText 1 (Thanks ''a@b.c'') None,
           ReplyText 1 ContinueShopping (Some [''no_products'', ''show_cart''])]"
    by (auto simp: kb strip_examples empty_world_def)
  with up ok reliable_example_env show ?thesis by blast
qed

text \<open>
  Claim C5 says that an update that matches no transition leaves the state as it is
  and gets a help prompt, and in particular that a plain text in the menu state leaves
  the state at the menu. Line 384 returns \<open>START\<close> there.
\<close>

theorem text_in_menu_goes_to_start:
  "fst (handle_menu (example_env offline) (Message 1 ''hello'')
          ((empty_world ())\<lparr>session := [1 \<mapsto> STATE_HANDLE_MENU]\<rparr>)) = Inr STATE_START \<and>
   session (handle_users_reply (example_env offline) (Message 1 ''hello'')
              ((empty_world ())\<lparr>session := [1 \<mapsto> STATE_HANDLE_MENU]\<rparr>)) 1 = Some ''START'' \<and>
   STATE_HANDLE_MENU \<noteq> ''START''"
  by (simp add: handle_users_reply_def user_state_of_def state_handler_def states_def
        handle_menu_def label_defs run_defs example_defs)

text \<open>
  Claim C5, amended. With a transport that carries out the calls: a text message in the
  menu state gets the prompt to press the start command and sets the state to
  \<open>START\<close>; a text message in the description or the cart state gets the help prompt
  of that state and leaves the state as it is; a button payload that the description or
  the cart state does not know leaves the state as it is and gets the acknowledgement
  of the press only, no prompt.
\<close>

theorem unmatched_events:
  assumes "reliable env"
  shows "handle_menu env (Message chat body) w =
           (Inr STATE_START, w\<lparr>outbox := outbox w @ [ReplyText chat PressStart None]\<rparr>) \<and>
         handle_description env (Message chat body) w =
           (Inr STATE_HANDLE_DESCRIPTION,
            w\<lparr>outbox := outbox w @ [ReplyText chat UseCardButtons None]\<rparr>) \<and>
         handle_cart env (Message chat body) w =
           (Inr STATE_HANDLE_CART, w\<lparr>outbox := outbox w @ [ReplyText chat UseCartButtons None]\<rparr>) \<and>
         (payload \<noteq> ''back_to_menu'' \<and> payload \<noteq> ''show_cart'' \<and> \<not> startswith payload ''add_'' \<longrightarrow>
            handle_description env (CallbackQuery chat mid payload) w =
              (Inr STATE_HANDLE_DESCRIPTION, w\<lparr>outbox := outbox w @ [Answer chat]\<rparr>)) \<and>
         (payload \<noteq> ''back_to_menu'' \<and> payload \<noteq> ''pay'' \<and> \<not> startswith payload ''remove_item_'' \<longrightarrow>
            handle_cart env (CallbackQuery chat mid payload) w =
              (Inr STATE_HANDLE_CART, w\<lparr>outbox := outbox w @ [Answer chat]\<rparr>))"
  using assms
  by (simp add: handle_menu_def handle_description_def handle_cart_def bnd_def ret_def tg_reliable)

text \<open>A text in the menu state, and a payload that the cart and the description do not know.\<close>

theorem unmatched_events_witness:
  "reliable (example_env (offline :: unit backend)) \<and>
   handle_menu (example_env offline) (Message 1 ''hello'') (empty_world ()) =
     (Inr STATE_START, (empty_world ())\<lparr>outbox := [ReplyText 1 PressStart None]\<rparr>) \<and>
   handle_cart (example_env offline) (CallbackQuery 1 5 ''checkout'') (empty_world ()) =
     (Inr STATE_HANDLE_CART, (empty_world ())\<lparr>outbox := [Answer 1]\<rparr>) \<and>
   handle_description (example_env offline) (CallbackQuery 1 5 ''pay'') (empty_world ()) =
     (Inr STATE_HANDLE_DESCRIPTION, (empty_world ())\<lparr>outbox := [Answer 1]\<rparr>)"
  using unmatched_events [OF reliable_example_env, of offline 1 "''hello''" "empty_world ()" "''checkout''" 5]
        unmatched_events [OF reliable_example_env, of offline 1 "''hello''" "empty_world ()" "''pay''" 5]
  by (simp add: reliable_example_env startswith_def empty_world_def)

subsection \<open>The image of a product, as the catalogue client resolves it\<close>





subsection \<open>The cart, as it is drawn\<close>


lemma positive_items_filter:
  "positive_items items = filter (\<lambda>ci. 0 < or_zero (ci_qty_kg ci)) items"
  by (induction items) auto

lemma cart_loop_eq:
  "cart_loop idx items (lns, t, bs) =
     (lns @ map (\<lambda>(i, ci). item_line i ci)
              (filter (\<lambda>(i, ci). truthy (get_cart_item_identifier ci)) (numbered idx items)),
      t + (\<Sum>ci\<leftarrow>filter (\<lambda>ci. truthy (get_cart_item_identifier ci)) items.
             or_zero (ci_qty_kg ci) * item_price ci),
      bs @ map (\<lambda>ci. ''remove_item_'' @ py_str (get_cart_item_identifier ci))
             (filter (\<lambda>ci. truthy (get_cart_item_identifier ci)) items))"
  by (induction items arbitrary: idx lns t bs) (auto simp: Let_def item_line_def)

lemma cart_view_eq:
  "cart_view raw =
     (let shown = filter (\<lambda>ci. 0 < or_zero (ci_qty_kg ci)) raw;
          listed = filter (\<lambda>ci. truthy (get_cart_item_identifier ci)) shown
      in if shown = [] then (CartEmpty, [''back_to_menu''])
         else (CartText
                 (map (\<lambda>(i, ci). item_line i ci)
                    (filter (\<lambda>(i, ci). truthy (get_cart_item_identifier ci)) (numbered 1 shown)))
                 (\<Sum>ci\<leftarrow>listed. or_zero (ci_qty_kg ci) * item_price ci),
               map (\<lambda>ci. ''remove_item_'' @ py_str (get_cart_item_identifier ci)) listed
                 @ [''pay'', ''back_to_menu'']))"
  by (simp add: cart_view_def positive_items_filter cart_loop_eq Let_def)

lemma show_cart_no_cart:
  assumes "reliable env"
    and "get_cart_by_tg (env_backend env) (str_int (chat_of upd)) (backend_state w) = (Inr None, b1)"
  shows "show_cart env upd rm w =
           (Inr STATE_HANDLE_CART,
            w\<lparr>backend_state := b1,
              outbox := outbox w @ cart_calls upd rm CartEmpty [''back_to_menu'']\<rparr>)"
  using assms
  by (cases upd)
     (simp_all add: show_cart_def send_cart_message_def cart_calls_def bnd_def ret_def catch_def
        tg_do_reliable on_backend_def)

lemma show_cart_items:
  assumes "reliable env"
    and "get_cart_by_tg (env_backend env) (str_int (chat_of upd)) (backend_state w) = (Inr (Some c), b1)"
    and "get_cart_items_with_products (env_backend env) (c_id c) b1 = (Inr raw, b2)"
  shows "show_cart env upd rm w =
           (Inr STATE_HANDLE_CART,
            w\<lparr>backend_state := b2,
              outbox := outbox w @ cart_calls upd rm (fst (cart_view raw)) (snd (cart_view raw))\<rparr>)"
  using assms
  by (cases upd; cases "cart_view raw")
     (simp_all add: show_cart_def send_cart_message_def cart_calls_def bnd_def ret_def catch_def
        tg_do_reliable on_backend_def)

text \<open>
  Claim C3 says that every item with a quantity above zero gets a removal action and
  counts in the sum. An item with no document id and no id (line 608) gets neither:
  the cart of this one item is drawn with no line, the sum 0 and the pay action.
\<close>

theorem item_without_identifier_is_skipped:
  "0 < or_zero (ci_qty_kg nameless_item) \<and>
   cart_view [nameless_item] = (CartText [] 0, [''pay'', ''back_to_menu'']) \<and>
   or_zero (ci_qty_kg nameless_item) * item_price nameless_item = 20"
  by (simp add: cart_view_def nameless_item_def or_zero_def item_price_def
        get_cart_item_identifier_def truthy_def)

text \<open>
  Claim C3, amended. The cart is drawn from the items of the backend with a quantity
  above zero. When there is none, the placeholder is shown with the action back to the
  menu alone, so without a pay action; \<^verbatim>\<open>show_cart\<close> shows the same when there is no
  cart. Otherwise every such item that has an identifier gets, in the order of the
  backend, a line whose subtotal is its quantity times its unit price and a removal
  action that carries its identifier (the document id when it has one, else the id);
  the sum is that of the subtotals of the items that have a line; the pay action and
  the action back to the menu follow. An item with no identifier gets no line and no
  action and does not count in the sum. \<^verbatim>\<open>show_cart\<close> sends this text and keyboard, and
  returns the cart state, when the transport carries out the calls.
\<close>

theorem cart_rendering:
  "cart_view raw =
     (let shown = filter (\<lambda>ci. 0 < or_zero (ci_qty_kg ci)) raw;
          listed = filter (\<lambda>ci. truthy (get_cart_item_identifier ci)) shown
      in if shown = [] then (CartEmpty, [''back_to_menu''])
         else (CartText
                 (map (\<lambda>(i, ci). item_line i ci)
                    (filter (\<lambda>(i, ci). truthy (get_cart_item_identifier ci)) (numbered 1 shown)))
                 (\<Sum>ci\<leftarrow>listed. or_zero (ci_qty_kg ci) * item_price ci),
               map (\<lambda>ci. ''remove_item_'' @ py_str (get_cart_item_identifier ci)) listed
                 @ [''pay'', ''back_to_menu''])) \<and>
   ln_subtotal (item_line i ci) = or_zero (ci_qty_kg ci) * item_price ci \<and>
   (ci_documentId ci = Some d \<and> d \<noteq> [] \<longrightarrow> get_cart_item_identifier ci = PyStr d) \<and>
   ((ci_documentId ci = None \<or> ci_documentId ci = Some []) \<and> ci_id ci = Some n \<longrightarrow>
      get_cart_item_identifier ci = PyInt n) \<and>
   (filter (\<lambda>ci. 0 < or_zero (ci_qty_kg ci)) raw = [] \<longrightarrow>
      cart_view raw = (CartEmpty, [''back_to_menu'']) \<and> ''pay'' \<notin> set (snd (cart_view raw))) \<and>
   (reliable env \<and>
    get_cart_by_tg (env_backend env) (str_int (chat_of upd)) (backend_state w) = (Inr None, b1) \<longrightarrow>
      show_cart env upd rm w =
        (Inr STATE_HANDLE_CART,
         w\<lparr>backend_state := b1,
           outbox := outbox w @ cart_calls upd rm CartEmpty [''back_to_menu'']\<rparr>)) \<and>
   (reliable env \<and>
    get_cart_by_tg (env_backend env) (str_int (chat_of upd)) (backend_state w) = (Inr (Some c), b1) \<and>
    get_cart_items_with_products (env_backend env) (c_id c) b1 = (Inr raw, b2) \<longrightarrow>
      show_cart env upd rm w =
        (Inr STATE_HANDLE_CART,
         w\<lparr>backend_state := b2,
           outbox := outbox w @ cart_calls upd rm (fst (cart_view raw)) (snd (cart_view raw))\<rparr>))"
proof -
  have sub: "ln_subtotal (item_line i ci) = or_zero (ci_qty_kg ci) * item_price ci"
    by (simp add: item_line_def Let_def)
  have ident: "ci_documentId ci = Some d \<and> d \<noteq> [] \<longrightarrow> get_cart_item_identifier ci = PyStr d"
    "(ci_documentId ci = None \<or> ci_documentId ci = Some []) \<and> ci_id ci = Some n \<longrightarrow>
      get_cart_item_identifier ci = PyInt n"
    by (auto simp: get_cart_item_identifier_def)
  have empty: "filter (\<lambda>ci. 0 < or_zero (ci_qty_kg ci)) raw = [] \<longrightarrow>
      cart_view raw = (CartEmpty, [''back_to_menu'']) \<and> ''pay'' \<notin> set (snd (cart_view raw))"
    by (simp add: cart_view_eq)
  from cart_view_eq [of raw] sub ident empty
       show_cart_no_cart [of env upd w b1 rm] show_cart_items [of env upd w c b1 raw b2 rm]
  show ?thesis by blast
qed

text \<open>A cart with a hidden item and five kilograms of salmon.\<close>

theorem cart_rendering_witness:
  "reliable (example_env cart_of_two) \<and>
   get_cart_by_tg (env_backend (example_env cart_of_two)) (str_int (chat_of (Message 1 ''cart'')))
       (backend_state (empty_world ())) = (Inr (Some \<lparr>c_id = 3, c_tg_id = ''1''\<rparr>), ()) \<and>
   get_cart_items_with_products (env_backend (example_env cart_of_two)) 3 ()
     = (Inr [hidden_item, salmon_item], ()) \<and>
   show_cart (example_env cart_of_two) (Message 1 ''cart'') False (empty_world ()) =
     (Inr STATE_HANDLE_CART,
      (empty_world ())\<lparr>outbox :=
         [ReplyText 1
            (CartText [\<lparr>ln_idx = 1, ln_title = Title ''Salmon'', ln_qty = 5, ln_price = 10,
                         ln_subtotal = 50\<rparr>] 50)
            (Some [''remove_item_abc'', ''pay'', ''back_to_menu''])]\<rparr>) \<and>
   get_cart_item_identifier salmon_item = PyStr ''abc''"
proof -
  have g: "get_cart_by_tg (env_backend (example_env cart_of_two)) (str_int (chat_of (Message 1 ''cart'')))
       (backend_state (empty_world ())) = (Inr (Some \<lparr>c_id = 3, c_tg_id = ''1''\<rparr>), ())"
    by (simp add: get_cart_by_tg_def cart_of_two_def example_defs run_defs raises_for_status_def
          or_empty_def first_or_none_def)
  have i: "get_cart_items_with_products (env_backend (example_env cart_of_two))
             (c_id \<lparr>c_id = 3, c_tg_id = ''1''\<rparr>) ()
     = (Inr [hidden_item, salmon_item], ())"
    by (simp add: get_cart_items_with_products_def cart_of_two_def example_defs run_defs
          raises_for_status_def or_empty_def)
  have v: "cart_view [hidden_item, salmon_item] =
             (CartText [\<lparr>ln_idx = 1, ln_title = Title ''Salmon'', ln_qty = 5, ln_price = 10,
                         ln_subtotal = 50\<rparr>] 50,
              [''remove_item_abc'', ''pay'', ''back_to_menu''])"
    by (simp add: cart_view_def hidden_item_def salmon_item_def or_zero_def item_line_def
          item_price_def item_title_def title_or_def get_cart_item_identifier_def truthy_def
          py_str_def)
  note t = cart_rendering [of "[hidden_item, salmon_item]" 1 salmon_item "''abc''" 11 "example_env cart_of_two"
                 "Message 1 ''cart''" "empty_world ()" "()" False "\<lparr>c_id = 3, c_tg_id = ''1''\<rparr>" "()"]
  have s: "show_cart (example_env cart_of_two) (Message 1 ''cart'') False (empty_world ()) =
     (Inr STATE_HANDLE_CART,
      (empty_world ())\<lparr>outbox :=
         [ReplyText 1
            (CartText [\<lparr>ln_idx = 1, ln_title = Title ''Salmon'', ln_qty = 5, ln_price = 10,
                         ln_subtotal = 50\<rparr>] 50)
            (Some [''remove_item_abc'', ''pay'', ''back_to_menu''])]\<rparr>)"
    using t g i reliable_example_env [of cart_of_two]
    by (simp add: v cart_calls_def empty_world_def)
  have d: "get_cart_item_identifier salmon_item = PyStr ''abc''"
    using t by (simp add: salmon_item_def)
  from g i s d reliable_example_env [of cart_of_two] show ?thesis by simp
qed

subsection \<open>The removal of an item\<close>










lemmas mem_defs = mem_backend_def offline_def mem_get_carts_def mem_post_cart_def
  mem_get_cart_items_def mem_get_cart_items_populated_def mem_post_cart_item_def
  mem_put_cart_item_def mem_delete_cart_item_def



subsection \<open>The cart of a chat\<close>


lemma doc_of_inj: "doc_of m = doc_of n \<longleftrightarrow> m = n"
proof
  assume "doc_of m = doc_of n"
  then have "length (doc_of m) = length (doc_of n)" by simp
  then show "m = n" by (simp add: doc_of_def)
qed simp

lemma foldr_max_ge: "x \<in> set xs \<Longrightarrow> x \<le> foldr max xs (0::nat)"
  by (induction xs) (auto simp: max_def)

lemma ensure_found:
  "get_cart_by_tg api t b = (Inr (Some c), b1) \<Longrightarrow> ensure_cart_exists api t b = (Inr (Some c), b1)"
  by (simp add: ensure_cart_exists_def bnd_def ret_def)

lemma ensure_missing:
  "get_cart_by_tg api t b = (Inr None, b1) \<Longrightarrow>
     ensure_cart_exists api t b = create_cart_for_tg api t b1"
  by (simp add: ensure_cart_exists_def bnd_def)

lemma mem_get_cart_by_tg:
  "get_cart_by_tg mem_backend t s = (Inr (first_or_none (filter (\<lambda>c. c_tg_id c = t) (st_carts s))), s)"
  by (simp add: get_cart_by_tg_def mem_defs run_defs raises_for_status_def or_empty_def)

lemma mem_create_cart:
  "create_cart_for_tg mem_backend t s =
     (Inr (Some \<lparr>c_id = 1 + foldr max (map c_id (st_carts s)) 0, c_tg_id = t\<rparr>),
      s\<lparr>st_carts := st_carts s @ [\<lparr>c_id = 1 + foldr max (map c_id (st_carts s)) 0, c_tg_id = t\<rparr>]\<rparr>)"
  by (simp add: create_cart_for_tg_def mem_defs run_defs raises_for_status_def Let_def)

lemma mem_ensure:
  "\<exists>c s1. ensure_cart_exists mem_backend t s = (Inr (Some c), s1) \<and> c_tg_id c = t \<and>
          ensure_cart_exists mem_backend t s1 = (Inr (Some c), s1) \<and>
          length (filter (\<lambda>c. c_tg_id c = t) (st_carts s1))
            = max 1 (length (filter (\<lambda>c. c_tg_id c = t) (st_carts s))) \<and>
          filter (\<lambda>c. c_tg_id c \<noteq> t) (st_carts s1) = filter (\<lambda>c. c_tg_id c \<noteq> t) (st_carts s) \<and>
          st_items s1 = st_items s"
proof (cases "filter (\<lambda>c. c_tg_id c = t) (st_carts s)")
  case Nil
  let ?new = "\<lparr>c_id = 1 + foldr max (map c_id (st_carts s)) 0, c_tg_id = t\<rparr>"
  let ?s1 = "s\<lparr>st_carts := st_carts s @ [?new]\<rparr>"
  have 1: "ensure_cart_exists mem_backend t s = (Inr (Some ?new), ?s1)"
    using Nil by (simp add: ensure_missing [OF _] mem_get_cart_by_tg mem_create_cart
                     first_or_none_def ensure_cart_exists_def bnd_def)
  have 2: "ensure_cart_exists mem_backend t ?s1 = (Inr (Some ?new), ?s1)"
    using Nil by (simp add: ensure_cart_exists_def bnd_def ret_def mem_get_cart_by_tg first_or_none_def)
  show ?thesis using 1 2 Nil by simp
next
  case (Cons c rest)
  have "c \<in> set (filter (\<lambda>c. c_tg_id c = t) (st_carts s))" using Cons by simp
  then have tg: "c_tg_id c = t" by simp
  have 1: "ensure_cart_exists mem_backend t s = (Inr (Some c), s)"
    using Cons by (simp add: ensure_cart_exists_def bnd_def ret_def mem_get_cart_by_tg first_or_none_def)
  show ?thesis using 1 tg Cons by simp
qed

text \<open>
  Claim C7. \<^verbatim>\<open>ensure_cart_exists\<close> returns the cart that \<^verbatim>\<open>get_cart_by_tg\<close> finds for
  the chat identity, and makes no further request then; it creates a cart only when
  none is found. On the backend in memory, from any store: the call returns a cart of
  the chat identity; a second call returns the same cart and leaves the store as the
  first left it; the store then holds one cart of that identity if it held none
  before, and as many as before otherwise; the carts of other identities and the items
  are untouched.
\<close>

theorem ensure_cart_exists_idempotent:
  "(get_cart_by_tg api t b = (Inr (Some c), b1) \<longrightarrow>
      ensure_cart_exists api t b = (Inr (Some c), b1)) \<and>
   (get_cart_by_tg api t b = (Inr None, b1) \<longrightarrow>
      ensure_cart_exists api t b = create_cart_for_tg api t b1) \<and>
   (\<exists>c' s1. ensure_cart_exists mem_backend t s = (Inr (Some c'), s1) \<and> c_tg_id c' = t \<and>
          ensure_cart_exists mem_backend t s1 = (Inr (Some c'), s1) \<and>
          length (filter (\<lambda>c. c_tg_id c = t) (st_carts s1))
            = max 1 (length (filter (\<lambda>c. c_tg_id c = t) (st_carts s))) \<and>
          filter (\<lambda>c. c_tg_id c \<noteq> t) (st_carts s1) = filter (\<lambda>c. c_tg_id c \<noteq> t) (st_carts s) \<and>
          st_items s1 = st_items s)"
  using ensure_found [of api t b c b1] ensure_missing [of api t b b1] mem_ensure [of t s]
  by blast

text \<open>A store with a cart for chat 1 and none for chat 2.\<close>

theorem ensure_cart_exists_idempotent_witness:
  "get_cart_by_tg mem_backend ''1'' one_item_store = (Inr (Some \<lparr>c_id = 3, c_tg_id = ''1''\<rparr>), one_item_store) \<and>
   ensure_cart_exists mem_backend ''1'' one_item_store
     = (Inr (Some \<lparr>c_id = 3, c_tg_id = ''1''\<rparr>), one_item_store) \<and>
   get_cart_by_tg mem_backend ''2'' one_item_store = (Inr None, one_item_store) \<and>
   ensure_cart_exists mem_backend ''2'' one_item_store
     = (Inr (Some \<lparr>c_id = 4, c_tg_id = ''2''\<rparr>),
        one_item_store\<lparr>st_carts := [\<lparr>c_id = 3, c_tg_id = ''1''\<rparr>, \<lparr>c_id = 4, c_tg_id = ''2''\<rparr>]\<rparr>)"
proof -
  have g1: "get_cart_by_tg mem_backend ''1'' one_item_store
              = (Inr (Some \<lparr>c_id = 3, c_tg_id = ''1''\<rparr>), one_item_store)"
    by (simp add: mem_get_cart_by_tg one_item_store_def first_or_none_def)
  have g2: "get_cart_by_tg mem_backend ''2'' one_item_store = (Inr None, one_item_store)"
    by (simp add: mem_get_cart_by_tg one_item_store_def first_or_none_def)
  have e1: "ensure_cart_exists mem_backend ''1'' one_item_store
     = (Inr (Some \<lparr>c_id = 3, c_tg_id = ''1''\<rparr>), one_item_store)"
    using ensure_cart_exists_idempotent [of mem_backend "''1''" one_item_store "\<lparr>c_id = 3, c_tg_id = ''1''\<rparr>"
                 one_item_store, THEN conjunct1] g1 by simp
  have e2: "ensure_cart_exists mem_backend ''2'' one_item_store
     = (Inr (Some \<lparr>c_id = 4, c_tg_id = ''2''\<rparr>),
        one_item_store\<lparr>st_carts := [\<lparr>c_id = 3, c_tg_id = ''1''\<rparr>, \<lparr>c_id = 4, c_tg_id = ''2''\<rparr>]\<rparr>)"
    using ensure_cart_exists_idempotent [of mem_backend "''2''" one_item_store _ one_item_store,
                 THEN conjunct2, THEN conjunct1] g2
    by (simp add: mem_create_cart one_item_store_def)
  from g1 e1 g2 e2 show ?thesis by simp
qed

subsection \<open>Adding to the cart\<close>

lemma add_creates:
  "find_cart_item api c p b = (Inr None, b1) \<Longrightarrow>
     add_or_increment_item api c p q b = create_cart_item api c p q b1"
  by (simp add: add_or_increment_item_def bnd_def)

lemma add_updates:
  "find_cart_item api c p b = (Inr (Some ex), b1) \<Longrightarrow>
   update_cart_item_qty api (get_cart_item_identifier ex) (or_zero (ci_qty_kg ex) + q) False b1
     = (Inr (Some u), b2) \<Longrightarrow>
     add_or_increment_item api c p q b = (Inr (Some u), b2)"
  by (simp add: add_or_increment_item_def bnd_def ret_def Let_def)

lemma add_recreates:
  "find_cart_item api c p b = (Inr (Some ex), b1) \<Longrightarrow>
   fst (put_cart_item api (py_str (get_cart_item_identifier ex)) (or_zero (ci_qty_kg ex) + q) b1)
     = Reply 404 bd \<Longrightarrow>
     add_or_increment_item api c p q b =
       create_cart_item api c p (or_zero (ci_qty_kg ex) + q)
         (snd (put_cart_item api (py_str (get_cart_item_identifier ex)) (or_zero (ci_qty_kg ex) + q) b1))"
  by (cases "put_cart_item api (py_str (get_cart_item_identifier ex)) (or_zero (ci_qty_kg ex) + q) b1")
     (simp add: add_or_increment_item_def bnd_def Let_def update_cart_item_qty_def)

lemma mem_find:
  "find_cart_item mem_backend c p s =
     (Inr (first_or_none (map item_json
        (filter (\<lambda>i. si_cart i = c \<and> si_product i = p) (st_items s)))), s)"
  by (simp add: find_cart_item_def mem_defs run_defs raises_for_status_def or_empty_def)

lemma mem_create_item:
  "create_cart_item mem_backend c p q s =
     (Inr (Some (item_json \<lparr>si_id = Suc (foldr max (map si_id (st_items s)) 0), si_cart = c,
                              si_product = p, si_qty = q\<rparr>)),
      s\<lparr>st_items := st_items s @
           [\<lparr>si_id = Suc (foldr max (map si_id (st_items s)) 0), si_cart = c,
             si_product = p, si_qty = q\<rparr>]\<rparr>)"
  by (simp add: create_cart_item_def mem_defs run_defs raises_for_status_def Let_def)

lemma mem_add_first:
  assumes "filter (\<lambda>i. si_cart i = c \<and> si_product i = p) (st_items s) = []"
  shows "add_or_increment_item mem_backend c p a s =
     (Inr (Some (item_json \<lparr>si_id = Suc (foldr max (map si_id (st_items s)) 0), si_cart = c,
                              si_product = p, si_qty = a\<rparr>)),
      s\<lparr>st_items := st_items s @
           [\<lparr>si_id = Suc (foldr max (map si_id (st_items s)) 0), si_cart = c,
             si_product = p, si_qty = a\<rparr>]\<rparr>)"
  using assms by (simp add: add_creates mem_find mem_create_item first_or_none_def)

lemma old_items_keep_doc:
  assumes "j \<in> set items"
  shows "doc_of (si_id j) \<noteq> doc_of (Suc (foldr max (map si_id items) 0))"
proof -
  have "si_id j \<le> foldr max (map si_id items) 0"
    using assms by (intro foldr_max_ge) simp
  then show ?thesis by (simp add: doc_of_inj)
qed

lemma mem_add_second:
  assumes "filter (\<lambda>i. si_cart i = c \<and> si_product i = p) items = []"
    and "new = \<lparr>si_id = Suc (foldr max (map si_id items) 0), si_cart = c, si_product = p, si_qty = a\<rparr>"
  shows "add_or_increment_item mem_backend c p b (s\<lparr>st_items := items @ [new]\<rparr>) =
     (Inr (Some (item_json (new\<lparr>si_qty := a + b\<rparr>))),
      s\<lparr>st_items := items @ [new\<lparr>si_qty := a + b\<rparr>]\<rparr>)"
proof -
  let ?s1 = "s\<lparr>st_items := items @ [new]\<rparr>"
  have f: "find_cart_item mem_backend c p ?s1 = (Inr (Some (item_json new)), ?s1)"
    using assms by (simp add: mem_find first_or_none_def)
  have id: "get_cart_item_identifier (item_json new) = PyStr (doc_of (si_id new))"
    by (simp add: get_cart_item_identifier_def item_json_def doc_of_def)
  have q: "or_zero (ci_qty_kg (item_json new)) = a"
    using assms(2) by (simp add: item_json_def or_zero_def)
  have old: "filter (\<lambda>i. doc_of (si_id i) = doc_of (si_id new)) items = []"
    using old_items_keep_doc [of _ items] assms(2) by (auto simp: filter_empty_conv)
  have keep: "map (\<lambda>j. if doc_of (si_id j) = doc_of (si_id new) then j\<lparr>si_qty := a + b\<rparr> else j) items
                = items"
    using old_items_keep_doc [of _ items] assms(2) by (auto simp: map_idI)
  have u: "update_cart_item_qty mem_backend (PyStr (doc_of (si_id new))) (a + b) False ?s1 =
             (Inr (Some (item_json (new\<lparr>si_qty := a + b\<rparr>))),
              s\<lparr>st_items := items @ [new\<lparr>si_qty := a + b\<rparr>]\<rparr>)"
    by (simp add: update_cart_item_qty_def py_str_def mem_defs old keep raises_for_status_def)
  show ?thesis
    using add_updates [OF f, of b] u by (simp add: id q)
qed

lemma mem_add_twice:
  assumes "filter (\<lambda>i. si_cart i = c \<and> si_product i = p) (st_items s) = []"
  shows "\<exists>i s1 s2.
           add_or_increment_item mem_backend c p a s = (Inr (Some (item_json (i\<lparr>si_qty := a\<rparr>))), s1) \<and>
           filter (\<lambda>i. si_cart i = c \<and> si_product i = p) (st_items s1) = [i\<lparr>si_qty := a\<rparr>] \<and>
           add_or_increment_item mem_backend c p b s1 = (Inr (Some (item_json i)), s2) \<and>
           filter (\<lambda>i. si_cart i = c \<and> si_product i = p) (st_items s2) = [i] \<and>
           si_qty i = a + b \<and>
           filter (\<lambda>i. \<not> (si_cart i = c \<and> si_product i = p)) (st_items s2)
             = filter (\<lambda>i. \<not> (si_cart i = c \<and> si_product i = p)) (st_items s)"
proof -
  let ?new = "\<lparr>si_id = Suc (foldr max (map si_id (st_items s)) 0), si_cart = c, si_product = p,
               si_qty = a\<rparr>"
  have 1: "add_or_increment_item mem_backend c p a s =
             (Inr (Some (item_json ?new)), s\<lparr>st_items := st_items s @ [?new]\<rparr>)"
    using mem_add_first [OF assms] .
  have 2: "add_or_increment_item mem_backend c p b (s\<lparr>st_items := st_items s @ [?new]\<rparr>) =
             (Inr (Some (item_json (?new\<lparr>si_qty := a + b\<rparr>))),
              s\<lparr>st_items := st_items s @ [?new\<lparr>si_qty := a + b\<rparr>]\<rparr>)"
    using mem_add_second [OF assms refl] .
  show ?thesis
    apply (rule exI [of _ "?new\<lparr>si_qty := a + b\<rparr>"])
    apply (rule exI [of _ "s\<lparr>st_items := st_items s @ [?new]\<rparr>"])
    apply (rule exI [of _ "s\<lparr>st_items := st_items s @ [?new\<lparr>si_qty := a + b\<rparr>]\<rparr>"])
    using 1 2 assms by simp
qed

text \<open>
  Claim C1. \<^verbatim>\<open>add_or_increment_item\<close> creates an item with the quantity to add when
  \<^verbatim>\<open>find_cart_item\<close> finds none for the cart and product; when it finds one, it updates
  that item to its quantity plus the quantity to add; and when the reply to the update
  is 404 it creates an item with that sum. On the backend in memory, from any store
  with no item for the cart and product: after a call with the quantity \<open>qa\<close> the store
  holds one item for the pair, with the quantity \<open>qa\<close>; after a second call with
  \<open>qb\<close> it still holds one, the same, with the quantity \<open>qa + qb\<close>; the items of
  other pairs are untouched.
\<close>

theorem add_or_increment_sums:
  "(find_cart_item api c p b = (Inr None, b1) \<longrightarrow>
      add_or_increment_item api c p q b = create_cart_item api c p q b1) \<and>
   (find_cart_item api c p b = (Inr (Some ex), b1) \<and>
    update_cart_item_qty api (get_cart_item_identifier ex) (or_zero (ci_qty_kg ex) + q) False b1
      = (Inr (Some u), b2) \<longrightarrow>
      add_or_increment_item api c p q b = (Inr (Some u), b2)) \<and>
   (find_cart_item api c p b = (Inr (Some ex), b1) \<and>
    fst (put_cart_item api (py_str (get_cart_item_identifier ex)) (or_zero (ci_qty_kg ex) + q) b1)
      = Reply 404 bd \<longrightarrow>
      add_or_increment_item api c p q b =
        create_cart_item api c p (or_zero (ci_qty_kg ex) + q)
          (snd (put_cart_item api (py_str (get_cart_item_identifier ex))
                  (or_zero (ci_qty_kg ex) + q) b1))) \<and>
   (filter (\<lambda>i. si_cart i = c \<and> si_product i = p) (st_items s) = [] \<longrightarrow>
      (\<exists>i s1 s2.
         add_or_increment_item mem_backend c p qa s
           = (Inr (Some (item_json (i\<lparr>si_qty := qa\<rparr>))), s1) \<and>
         filter (\<lambda>i. si_cart i = c \<and> si_product i = p) (st_items s1) = [i\<lparr>si_qty := qa\<rparr>] \<and>
         add_or_increment_item mem_backend c p qb s1 = (Inr (Some (item_json i)), s2) \<and>
         filter (\<lambda>i. si_cart i = c \<and> si_product i = p) (st_items s2) = [i] \<and>
         si_qty i = qa + qb \<and>
         filter (\<lambda>i. \<not> (si_cart i = c \<and> si_product i = p)) (st_items s2)
           = filter (\<lambda>i. \<not> (si_cart i = c \<and> si_product i = p)) (st_items s)))"
  using add_creates [of api c p b b1 q] add_updates [of api c p b ex b1 q u b2]
        add_recreates [of api c p b ex b1 q bd] mem_add_twice [of c p s qa qb]
  by blast

text \<open>
  Twice two and a half kilograms of a product new to the cart make one item of five;
  and on the backend where the item found is gone at the update, an item with the sum
  is created.
\<close>

theorem add_or_increment_sums_witness:
  "filter (\<lambda>i. si_cart i = 3 \<and> si_product i = 9) (st_items one_item_store) = [] \<and>
   (\<exists>i s1 s2.
      add_or_increment_item mem_backend 3 9 (5 / 2) one_item_store
        = (Inr (Some (item_json (i\<lparr>si_qty := 5 / 2\<rparr>))), s1) \<and>
      filter (\<lambda>i. si_cart i = 3 \<and> si_product i = 9) (st_items s1) = [i\<lparr>si_qty := 5 / 2\<rparr>] \<and>
      add_or_increment_item mem_backend 3 9 (5 / 2) s1 = (Inr (Some (item_json i)), s2) \<and>
      filter (\<lambda>i. si_cart i = 3 \<and> si_product i = 9) (st_items s2) = [i] \<and>
      si_qty i = 5) \<and>
   find_cart_item racing_delete 3 7 [] = (Inr (Some salmon_item), []) \<and>
   fst (put_cart_item racing_delete (py_str (get_cart_item_identifier salmon_item))
          (or_zero (ci_qty_kg salmon_item) + 2) []) = Reply 404 NoJson \<and>
   add_or_increment_item racing_delete 3 7 2 [] =
     (Inr (Some (salmon_item\<lparr>ci_id := Some 13, ci_documentId := Some ''abe'', ci_qty_kg := Some 7\<rparr>)),
      [7])"
proof -
  have e: "filter (\<lambda>i. si_cart i = 3 \<and> si_product i = 9) (st_items one_item_store) = []"
    by (simp add: one_item_store_def)
  have two: "\<exists>i s1 s2.
      add_or_increment_item mem_backend 3 9 (5 / 2) one_item_store
        = (Inr (Some (item_json (i\<lparr>si_qty := 5 / 2\<rparr>))), s1) \<and>
      filter (\<lambda>i. si_cart i = 3 \<and> si_product i = 9) (st_items s1) = [i\<lparr>si_qty := 5 / 2\<rparr>] \<and>
      add_or_increment_item mem_backend 3 9 (5 / 2) s1 = (Inr (Some (item_json i)), s2) \<and>
      filter (\<lambda>i. si_cart i = 3 \<and> si_product i = 9) (st_items s2) = [i] \<and>
      si_qty i = 5"
    using add_or_increment_sums [of _ 3 9 _ _ _ _ _ _ _ one_item_store "5 / 2" "5 / 2",
                 THEN conjunct2, THEN conjunct2, THEN conjunct2, THEN mp, OF e]
    by auto
  have f: "find_cart_item racing_delete 3 7 [] = (Inr (Some salmon_item), [])"
    by (simp add: find_cart_item_def racing_delete_def offline_def run_defs raises_for_status_def
          or_empty_def first_or_none_def)
  have u: "fst (put_cart_item racing_delete (py_str (get_cart_item_identifier salmon_item))
          (or_zero (ci_qty_kg salmon_item) + 2) []) = Reply 404 NoJson"
    by (simp add: racing_delete_def offline_def)
  have a: "add_or_increment_item racing_delete 3 7 2 [] =
     (Inr (Some (salmon_item\<lparr>ci_id := Some 13, ci_documentId := Some ''abe'', ci_qty_kg := Some 7\<rparr>)),
      [7])"
    using add_or_increment_sums [of racing_delete 3 7 "[]" "[]" 2 salmon_item _ _ NoJson,
                 THEN conjunct2, THEN conjunct2, THEN conjunct1] f u
    by (simp add: create_cart_item_def racing_delete_def offline_def request_def
          raises_for_status_def salmon_item_def or_zero_def)
  from e two f u a show ?thesis by blast
qed

end
